theory Spec2Isabelle
  imports Main
begin

section \<open>Data model\<close>

text \<open>
  The persistent store is the PostgreSQL schema of the init migration, reached through
  Prisma. Every table is a list of rows in insertion order; \<open>findUnique\<close> and
  \<open>findFirst\<close> return the first row that matches. Primary and foreign keys are
  UUIDs: 128-bit values, modelled as natural numbers (a UUID string is never empty, so the
  JavaScript truth test of an optional id is the test that it is defined). Timestamps are
  milliseconds since the epoch, as \<^verbatim>\<open>Date.now()\<close> gives them.
\<close>

type_synonym uuid = nat
type_synonym time = nat

datatype UserStatus = UNVERIFIED | ACTIVE | SUSPENDED
datatype TaskStatus = PENDING_ACCEPTANCE | OPEN | IN_PROGRESS | COMPLETED | CLOSED
datatype GroupRole = ADMIN | MEMBER

text \<open>
  The three error classes of the services carry a code, a message and an HTTP status.
  \<open>PrismaError\<close> stands for an exception of the Prisma client itself (its error code).
\<close>

datatype error =
    AuthError string string nat
  | GroupError string string nat
  | TaskError string string nat
  | PrismaError string

record group_member =
  gm_userId :: uuid
  gm_groupId :: uuid
  gm_role :: GroupRole

record task =
  task_id :: uuid
  task_title :: string
  task_description :: "string option"
  task_status :: TaskStatus
  task_groupId :: uuid
  task_createdById :: uuid
  task_assigneeId :: "uuid option"
  task_acceptedAt :: "time option"
  task_createdAt :: time
  task_updatedAt :: time
  task_deletedAt :: "time option"

record user =
  user_id :: uuid
  user_email :: string
  user_passwordHash :: "string option"
  user_name :: string
  user_status :: UserStatus
  user_createdAt :: time
  user_deletedAt :: "time option"

text \<open>
  Strings that carry tokens are modelled symbolically. A string is either a JWT signed with
  the refresh secret (the term of its claims), a JWT signed with the access secret, or any
  other string. SHA-256 is a free constructor: two digests are equal only when the hashed
  strings are, and no digest is the empty string that \<open>createTokenPair\<close> stores as a
  placeholder.
\<close>

record refresh_claims =
  rc_sub :: uuid
  rc_tokenId :: uuid
  rc_family :: uuid
  rc_iat :: nat
  rc_exp :: nat

record access_payload =
  ap_sub :: uuid
  ap_email :: string
  ap_status :: UserStatus
  ap_iat :: nat
  ap_exp :: nat

datatype token_string =
    RefreshJwt refresh_claims
  | AccessJwt access_payload
  | Str string

datatype token_hash = EmptyHash | Sha256 token_string

record refresh_token =
  rt_id :: uuid
  rt_tokenHash :: token_hash
  rt_userId :: uuid
  rt_family :: uuid
  rt_revoked :: bool
  rt_expiresAt :: time
  rt_createdAt :: time

record opaque_token =
  ot_id :: uuid
  ot_tokenHash :: token_hash
  ot_userId :: uuid
  ot_expiresAt :: time

record db =
  users :: "user list"
  refresh_tokens :: "refresh_token list"
  verification_tokens :: "opaque_token list"
  password_reset_tokens :: "opaque_token list"
  group_members :: "group_member list"
  tasks :: "task list"

text \<open>The part of the environment configuration that the services read.\<close>

record config =
  NODE_ENV :: "string option"
  JWT_ACCESS_EXPIRY_SECONDS :: nat
  JWT_REFRESH_EXPIRY_SECONDS :: nat
  ENABLE_EMAIL :: bool
  ENABLE_ASSIGNMENTS :: bool
  ENABLE_PASSWORD_RESET :: bool

section \<open>Group membership authority (group.service.ts)\<close>

definition findMembership :: "uuid \<Rightarrow> uuid \<Rightarrow> db \<Rightarrow> group_member option" where
  "findMembership userId groupId d =
     find (\<lambda>m. gm_userId m = userId \<and> gm_groupId m = groupId) (group_members d)"

definition assertGroupMember :: "uuid \<Rightarrow> uuid \<Rightarrow> db \<Rightarrow> error + unit" where
  "assertGroupMember groupId userId d =
     (case findMembership userId groupId d of
        None \<Rightarrow> Inl (GroupError ''NOT_A_MEMBER'' ''You are not a member of this group'' 403)
      | Some m \<Rightarrow> Inr ())"

definition assertGroupAdmin :: "uuid \<Rightarrow> uuid \<Rightarrow> db \<Rightarrow> error + unit" where
  "assertGroupAdmin groupId userId d =
     (case findMembership userId groupId d of
        None \<Rightarrow> Inl (GroupError ''NOT_ADMIN'' ''Admin access required for this group'' 403)
      | Some m \<Rightarrow>
          if gm_role m \<noteq> ADMIN
          then Inl (GroupError ''NOT_ADMIN'' ''Admin access required for this group'' 403)
          else Inr ())"

definition adminCount :: "uuid \<Rightarrow> db \<Rightarrow> nat" where
  "adminCount groupId d =
     length (filter (\<lambda>m. gm_groupId m = groupId \<and> gm_role m = ADMIN) (group_members d))"

definition removeMember :: "uuid \<Rightarrow> uuid \<Rightarrow> uuid \<Rightarrow> db \<Rightarrow> (error + unit) \<times> db" where
  "removeMember groupId targetUserId actingUserId d =
     (case assertGroupAdmin groupId actingUserId d of
        Inl e \<Rightarrow> (Inl e, d)
      | Inr u \<Rightarrow>
         (case findMembership targetUserId groupId d of
            None \<Rightarrow>
              (Inl (GroupError ''NOT_A_MEMBER'' ''User is not a member of this group'' 404), d)
          | Some membership \<Rightarrow>
              if gm_role membership = ADMIN \<and> adminCount groupId d \<le> 1
              then (Inl (GroupError ''LAST_ADMIN''
                           ''Cannot remove the last admin from the group'' 400), d)
              else (Inr (),
                    d\<lparr>group_members :=
                        filter (\<lambda>m. \<not> (gm_userId m = targetUserId \<and> gm_groupId m = groupId))
                          (group_members d)\<rparr>)))"

section \<open>Task lifecycle engine (task service)\<close>

definition status_name :: "TaskStatus \<Rightarrow> string" where
  "status_name s =
     (case s of
        PENDING_ACCEPTANCE \<Rightarrow> ''PENDING_ACCEPTANCE''
      | OPEN \<Rightarrow> ''OPEN''
      | IN_PROGRESS \<Rightarrow> ''IN_PROGRESS''
      | COMPLETED \<Rightarrow> ''COMPLETED''
      | CLOSED \<Rightarrow> ''CLOSED'')"

definition status_of_name :: "string \<Rightarrow> TaskStatus option" where
  "status_of_name n =
     (if n = ''PENDING_ACCEPTANCE'' then Some PENDING_ACCEPTANCE
      else if n = ''OPEN'' then Some OPEN
      else if n = ''IN_PROGRESS'' then Some IN_PROGRESS
      else if n = ''COMPLETED'' then Some COMPLETED
      else if n = ''CLOSED'' then Some CLOSED
      else None)"

definition VALID_TRANSITIONS :: "(string \<times> string list) list" where
  "VALID_TRANSITIONS =
     [(''PENDING_ACCEPTANCE'', [''OPEN'', ''CLOSED'']),
      (''OPEN'', [''IN_PROGRESS'', ''CLOSED'']),
      (''IN_PROGRESS'', [''COMPLETED'', ''OPEN'', ''CLOSED'']),
      (''COMPLETED'', [''CLOSED'']),
      (''CLOSED'', [])]"

definition isValidTransition :: "string \<Rightarrow> string \<Rightarrow> bool" where
  "isValidTransition from_s to_s =
     (case map_of VALID_TRANSITIONS from_s of
        None \<Rightarrow> False
      | Some allowed \<Rightarrow> to_s \<in> set allowed)"

text \<open>
  \<open>prisma.task.update\<close> with \<open>where: {id}\<close>: the row with that primary key is
  rewritten (Prisma stamps \<open>updatedAt\<close>), and the call throws P2025 when there is none.
  The task operations return the row they read or wrote; the \<open>select\<close> of the source
  returns every column of it except \<open>deletedAt\<close>.
\<close>

definition task_update :: "time \<Rightarrow> uuid \<Rightarrow> (task \<Rightarrow> task) \<Rightarrow> db \<Rightarrow> (error + task) \<times> db" where
  "task_update now taskId f d =
     (case find (\<lambda>t. task_id t = taskId) (tasks d) of
        None \<Rightarrow> (Inl (PrismaError ''P2025''), d)
      | Some t \<Rightarrow>
          (Inr ((f t)\<lparr>task_updatedAt := now\<rparr>),
           d\<lparr>tasks := map (\<lambda>x. if task_id x = taskId then (f x)\<lparr>task_updatedAt := now\<rparr> else x)
                        (tasks d)\<rparr>))"

definition getTaskById :: "uuid \<Rightarrow> uuid \<Rightarrow> db \<Rightarrow> error + task" where
  "getTaskById taskId userId d =
     (case find (\<lambda>t. task_id t = taskId \<and> task_deletedAt t = None) (tasks d) of
        None \<Rightarrow> Inl (TaskError ''TASK_NOT_FOUND'' ''Task not found'' 404)
      | Some t \<Rightarrow>
         (case assertGroupMember (task_groupId t) userId d of
            Inl e \<Rightarrow> Inl e
          | Inr u \<Rightarrow> Inr t))"

record create_task_input =
  in_title :: string
  in_description :: "string option"
  in_groupId :: uuid
  in_assigneeId :: "uuid option"

text \<open>
  \<open>createTask\<close>: the new row's id is generated by the store (\<open>newId\<close>); the columns the
  call does not set take the schema defaults (\<open>acceptedAt\<close> and \<open>deletedAt\<close> null).
\<close>

definition createTask ::
  "config \<Rightarrow> time \<Rightarrow> uuid \<Rightarrow> create_task_input \<Rightarrow> uuid \<Rightarrow> db \<Rightarrow> (error + task) \<times> db" where
  "createTask cfg now newId input userId d =
     (case assertGroupMember (in_groupId input) userId d of
        Inl e \<Rightarrow> (Inl e, d)
      | Inr u \<Rightarrow>
         (case (case in_assigneeId input of
                  None \<Rightarrow> Inr OPEN
                | Some a \<Rightarrow>
                    if \<not> ENABLE_ASSIGNMENTS cfg
                    then Inl (TaskError ''FEATURE_DISABLED''
                                ''Task assignments are currently disabled'' 400)
                    else (case assertGroupMember (in_groupId input) a d of
                            Inl e \<Rightarrow> Inl e
                          | Inr u \<Rightarrow> Inr PENDING_ACCEPTANCE)) of
            Inl e \<Rightarrow> (Inl e, d)
          | Inr initialStatus \<Rightarrow>
              (let t = \<lparr>task_id = newId, task_title = in_title input,
                        task_description = in_description input,
                        task_status = initialStatus, task_groupId = in_groupId input,
                        task_createdById = userId, task_assigneeId = in_assigneeId input,
                        task_acceptedAt = None, task_createdAt = now, task_updatedAt = now,
                        task_deletedAt = None\<rparr>
               in (Inr t, d\<lparr>tasks := tasks d @ [t]\<rparr>))))"

definition updateTaskStatus ::
  "time \<Rightarrow> uuid \<Rightarrow> string \<Rightarrow> uuid \<Rightarrow> db \<Rightarrow> (error + task) \<times> db" where
  "updateTaskStatus now taskId newStatus userId d =
     (case getTaskById taskId userId d of
        Inl e \<Rightarrow> (Inl e, d)
      | Inr t \<Rightarrow>
          if \<not> isValidTransition (status_name (task_status t)) newStatus
          then (Inl (TaskError ''INVALID_TRANSITION''
                       (''Cannot transition from '' @ status_name (task_status t) @ '' to ''
                          @ newStatus) 400), d)
          else (case status_of_name newStatus of
                  None \<Rightarrow> (Inl (PrismaError ''PrismaClientValidationError''), d)
                | Some s \<Rightarrow> task_update now taskId (\<lambda>x. x\<lparr>task_status := s\<rparr>) d))"

definition acceptTask :: "time \<Rightarrow> uuid \<Rightarrow> uuid \<Rightarrow> db \<Rightarrow> (error + task) \<times> db" where
  "acceptTask now taskId userId d =
     (case getTaskById taskId userId d of
        Inl e \<Rightarrow> (Inl e, d)
      | Inr t \<Rightarrow>
          if task_assigneeId t \<noteq> Some userId
          then (Inl (TaskError ''FORBIDDEN''
                       ''Only the assigned user can accept this task'' 403), d)
          else if task_status t \<noteq> PENDING_ACCEPTANCE
          then (Inl (TaskError ''INVALID_STATE'' ''Task is not pending acceptance'' 400), d)
          else task_update now taskId
                 (\<lambda>x. x\<lparr>task_status := OPEN, task_acceptedAt := Some now\<rparr>) d)"

definition assignTask ::
  "config \<Rightarrow> time \<Rightarrow> uuid \<Rightarrow> uuid \<Rightarrow> uuid \<Rightarrow> db \<Rightarrow> (error + task) \<times> db" where
  "assignTask cfg now taskId assigneeId userId d =
     (if \<not> ENABLE_ASSIGNMENTS cfg
      then (Inl (TaskError ''FEATURE_DISABLED''
                   ''Task assignments are currently disabled'' 400), d)
      else
       (case getTaskById taskId userId d of
          Inl e \<Rightarrow> (Inl e, d)
        | Inr t \<Rightarrow>
            if task_createdById t \<noteq> userId
            then (Inl (TaskError ''FORBIDDEN''
                         ''Only the task creator can assign this task'' 403), d)
            else (case assertGroupMember (task_groupId t) assigneeId d of
                    Inl e \<Rightarrow> (Inl e, d)
                  | Inr u \<Rightarrow>
                      task_update now taskId
                        (\<lambda>x. x\<lparr>task_assigneeId := Some assigneeId,
                               task_status := PENDING_ACCEPTANCE,
                               task_acceptedAt := None\<rparr>) d)))"

text \<open>
  \<open>updateTask\<close> writes the fields that are present in the input; \<open>deleteTask\<close>
  stamps \<open>deletedAt\<close> and keeps the row.
\<close>

record update_task_input =
  ut_title :: "string option"
  ut_description :: "string option"

definition updateTask ::
  "time \<Rightarrow> uuid \<Rightarrow> update_task_input \<Rightarrow> uuid \<Rightarrow> db \<Rightarrow> (error + task) \<times> db" where
  "updateTask now taskId input userId d =
     (case getTaskById taskId userId d of
        Inl e \<Rightarrow> (Inl e, d)
      | Inr t \<Rightarrow>
          if task_createdById t \<noteq> userId
          then (Inl (TaskError ''FORBIDDEN''
                       ''Only the task creator can update this task'' 403), d)
          else task_update now taskId
                 (\<lambda>x. x\<lparr>task_title := (case ut_title input of None \<Rightarrow> task_title x
                                          | Some v \<Rightarrow> v),
                        task_description := (case ut_description input of
                                               None \<Rightarrow> task_description x
                                             | Some v \<Rightarrow> Some v)\<rparr>) d)"

definition deleteTask :: "time \<Rightarrow> uuid \<Rightarrow> uuid \<Rightarrow> db \<Rightarrow> (error + unit) \<times> db" where
  "deleteTask now taskId userId d =
     (case getTaskById taskId userId d of
        Inl e \<Rightarrow> (Inl e, d)
      | Inr t \<Rightarrow>
          if task_createdById t \<noteq> userId
          then (Inl (TaskError ''FORBIDDEN''
                       ''Only the task creator can delete this task'' 403), d)
          else (case task_update now taskId (\<lambda>x. x\<lparr>task_deletedAt := Some now\<rparr>) d of
                  (Inl e, d') \<Rightarrow> (Inl e, d')
                | (Inr u, d') \<Rightarrow> (Inr (), d')))"

section \<open>Token codec (lib/jwt.ts, lib/crypto.ts)\<close>

text \<open>
  \<open>jsonwebtoken\<close> stamps \<open>iat\<close> with the current time in seconds and \<open>exp\<close> with
  \<open>iat + expiresIn\<close>; verification with the refresh secret accepts exactly the strings
  signed with it whose \<open>exp\<close> is still in the future, and throws otherwise.
\<close>

definition signAccessToken :: "config \<Rightarrow> time \<Rightarrow> uuid \<Rightarrow> string \<Rightarrow> UserStatus \<Rightarrow> token_string" where
  "signAccessToken cfg now userId email status =
     AccessJwt \<lparr>ap_sub = userId, ap_email = email, ap_status = status,
                ap_iat = now div 1000,
                ap_exp = now div 1000 + JWT_ACCESS_EXPIRY_SECONDS cfg\<rparr>"

definition signRefreshToken :: "config \<Rightarrow> time \<Rightarrow> uuid \<Rightarrow> uuid \<Rightarrow> uuid \<Rightarrow> token_string" where
  "signRefreshToken cfg now userId tokenId family =
     RefreshJwt \<lparr>rc_sub = userId, rc_tokenId = tokenId, rc_family = family,
                 rc_iat = now div 1000,
                 rc_exp = now div 1000 + JWT_REFRESH_EXPIRY_SECONDS cfg\<rparr>"

definition verifyRefreshToken :: "time \<Rightarrow> token_string \<Rightarrow> refresh_claims option" where
  "verifyRefreshToken now token =
     (case token of
        RefreshJwt c \<Rightarrow> if rc_exp c \<le> now div 1000 then None else Some c
      | AccessJwt p \<Rightarrow> None
      | Str s \<Rightarrow> None)"

definition hashToken :: "token_string \<Rightarrow> token_hash" where
  "hashToken token = Sha256 token"

text \<open>\<open>generateOpaqueToken\<close>: \<open>rnd\<close> is the hex string of the random bytes drawn.\<close>

definition generateOpaqueToken :: "string \<Rightarrow> string \<times> token_hash" where
  "generateOpaqueToken rnd = (rnd, hashToken (Str rnd))"

section \<open>Session manager (auth.service.ts)\<close>

record AuthTokens =
  accessToken :: token_string
  refreshToken :: token_string

record UserProfile =
  up_id :: uuid
  up_email :: string
  up_name :: string
  up_status :: UserStatus
  up_createdAt :: time

record login_input =
  li_email :: string
  li_password :: string

text \<open>\<open>prisma.refreshToken.updateMany\<close> with \<open>data: {revoked: true}\<close>.\<close>

definition revokeWhere :: "(refresh_token \<Rightarrow> bool) \<Rightarrow> db \<Rightarrow> db" where
  "revokeWhere P d =
     d\<lparr>refresh_tokens :=
         map (\<lambda>r. if P r then r\<lparr>rt_revoked := True\<rparr> else r) (refresh_tokens d)\<rparr>"

text \<open>
  \<open>createTokenPair\<close>: the store generates the id of the new row (\<open>newId\<close>);
  \<open>randomUUID\<close> is the value \<open>randomUUID()\<close> returns, used only when no family is
  passed. The row is created with the empty placeholder hash and unrevoked (the column
  default), then the hash of the signed token is written to the row with that id.
\<close>

definition createTokenPair ::
  "config \<Rightarrow> time \<Rightarrow> uuid \<Rightarrow> uuid \<Rightarrow> uuid \<Rightarrow> string \<Rightarrow> UserStatus \<Rightarrow> uuid option \<Rightarrow> db
     \<Rightarrow> AuthTokens \<times> db" where
  "createTokenPair cfg now newId randomUUID userId email status family d =
     (let tokenFamily = (case family of Some f \<Rightarrow> f | None \<Rightarrow> randomUUID);
          access = signAccessToken cfg now userId email status;
          refreshTokenRecord =
            \<lparr>rt_id = newId, rt_tokenHash = EmptyHash, rt_userId = userId,
             rt_family = tokenFamily, rt_revoked = False,
             rt_expiresAt = now + JWT_REFRESH_EXPIRY_SECONDS cfg * 1000,
             rt_createdAt = now\<rparr>;
          d1 = d\<lparr>refresh_tokens := refresh_tokens d @ [refreshTokenRecord]\<rparr>;
          refresh = signRefreshToken cfg now userId (rt_id refreshTokenRecord) tokenFamily;
          refreshHash = hashToken refresh;
          d2 = d1\<lparr>refresh_tokens :=
                    map (\<lambda>r. if rt_id r = rt_id refreshTokenRecord
                              then r\<lparr>rt_tokenHash := refreshHash\<rparr> else r)
                      (refresh_tokens d1)\<rparr>
      in (\<lparr>accessToken = access, refreshToken = refresh\<rparr>, d2))"

text \<open>
  \<open>loginUser\<close>: \<open>verifyPassword\<close> is the function of lib/password, applied to the stored
  hash and the submitted password. An empty string is falsy in JavaScript, so an empty
  stored hash is treated like a missing one.
\<close>

definition loginUser ::
  "(string \<Rightarrow> string \<Rightarrow> bool) \<Rightarrow> config \<Rightarrow> time \<Rightarrow> uuid \<Rightarrow> uuid \<Rightarrow> login_input \<Rightarrow> db
     \<Rightarrow> (error + AuthTokens \<times> UserProfile) \<times> db" where
  "loginUser verifyPassword cfg now newId randomUUID input d =
     (case find (\<lambda>u. user_email u = li_email input) (users d) of
        None \<Rightarrow> (Inl (AuthError ''INVALID_CREDENTIALS'' ''Invalid email or password'' 401), d)
      | Some u \<Rightarrow>
         (case user_passwordHash u of
            None \<Rightarrow>
              (Inl (AuthError ''INVALID_CREDENTIALS'' ''Invalid email or password'' 401), d)
          | Some passwordHash \<Rightarrow>
              if passwordHash = []
              then (Inl (AuthError ''INVALID_CREDENTIALS'' ''Invalid email or password'' 401), d)
              else if user_deletedAt u \<noteq> None
              then (Inl (AuthError ''ACCOUNT_DELETED''
                           ''This account has been deactivated'' 401), d)
              else if user_status u = SUSPENDED
              then (Inl (AuthError ''ACCOUNT_SUSPENDED''
                           ''This account has been suspended'' 403), d)
              else if \<not> verifyPassword passwordHash (li_password input)
              then (Inl (AuthError ''INVALID_CREDENTIALS''
                           ''Invalid email or password'' 401), d)
              else
                (case createTokenPair cfg now newId randomUUID
                        (user_id u) (user_email u) (user_status u) None d of
                   (tokens, d') \<Rightarrow>
                     (Inr (tokens,
                           \<lparr>up_id = user_id u, up_email = user_email u,
                            up_name = user_name u, up_status = user_status u,
                            up_createdAt = user_createdAt u\<rparr>), d'))))"

text \<open>
  \<open>refreshTokens\<close>: the writes are separate calls of the client, not a transaction, so
  each error branch returns the store as the writes before it left it. The family is passed
  to \<open>createTokenPair\<close>, so no random UUID is drawn (the argument \<open>0\<close> is not read).
\<close>

definition refreshTokens ::
  "config \<Rightarrow> time \<Rightarrow> uuid \<Rightarrow> token_string \<Rightarrow> db \<Rightarrow> (error + AuthTokens) \<times> db" where
  "refreshTokens cfg now newId rawRefreshToken d =
     (case verifyRefreshToken now rawRefreshToken of
        None \<Rightarrow> (Inl (AuthError ''INVALID_TOKEN'' ''Invalid refresh token'' 401), d)
      | Some claims \<Rightarrow>
         (case find (\<lambda>r. rt_tokenHash r = hashToken rawRefreshToken \<and> rt_userId r = rc_sub claims)
                 (refresh_tokens d) of
            None \<Rightarrow>
              (Inl (AuthError ''TOKEN_REUSE'' ''Refresh token has been revoked'' 401),
               revokeWhere (\<lambda>r. rt_family r = rc_family claims) d)
          | Some storedToken \<Rightarrow>
              if rt_revoked storedToken
              then (Inl (AuthError ''TOKEN_REUSE'' ''Refresh token has been revoked'' 401),
                    revokeWhere (\<lambda>r. rt_family r = rc_family claims) d)
              else if rt_expiresAt storedToken < now
              then (Inl (AuthError ''TOKEN_EXPIRED'' ''Refresh token has expired'' 401), d)
              else
                (let d1 = revokeWhere (\<lambda>r. rt_id r = rt_id storedToken) d in
                 case find (\<lambda>u. user_id u = rc_sub claims) (users d1) of
                   None \<Rightarrow> (Inl (AuthError ''USER_NOT_FOUND'' ''User not found'' 401), d1)
                 | Some u \<Rightarrow>
                     if user_deletedAt u \<noteq> None
                     then (Inl (AuthError ''USER_NOT_FOUND'' ''User not found'' 401), d1)
                     else
                       (case createTokenPair cfg now newId 0
                               (user_id u) (user_email u) (user_status u)
                               (Some (rc_family claims)) d1 of
                          (tokens, d2) \<Rightarrow> (Inr tokens, d2)))))"

text \<open>
  The calls of \<open>refreshTokens\<close> to the store are awaited one by one, with no
  transaction around them, so handlers of other requests can run in between. To follow
  two overlapping calls the function is cut after its first read:
  \<open>refreshTokens_read\<close> is the signature check and the \<open>findFirst\<close>;
  \<open>refreshTokens_rest\<close> is everything after it, run on the store as it is by then,
  with the claims and the row that were read. Run with nothing in between, the two are
  \<open>refreshTokens\<close> (lemma \<open>refreshTokens_cut\<close>).
\<close>

definition refreshTokens_read ::
  "time \<Rightarrow> token_string \<Rightarrow> db \<Rightarrow> error + refresh_claims \<times> refresh_token option" where
  "refreshTokens_read now rawRefreshToken d =
     (case verifyRefreshToken now rawRefreshToken of
        None \<Rightarrow> Inl (AuthError ''INVALID_TOKEN'' ''Invalid refresh token'' 401)
      | Some claims \<Rightarrow>
          Inr (claims,
               find (\<lambda>r. rt_tokenHash r = hashToken rawRefreshToken \<and> rt_userId r = rc_sub claims)
                 (refresh_tokens d)))"

definition refreshTokens_rest ::
  "config \<Rightarrow> time \<Rightarrow> uuid \<Rightarrow> refresh_claims \<Rightarrow> refresh_token option \<Rightarrow> db
     \<Rightarrow> (error + AuthTokens) \<times> db" where
  "refreshTokens_rest cfg now newId claims stored d =
     (case stored of
        None \<Rightarrow>
          (Inl (AuthError ''TOKEN_REUSE'' ''Refresh token has been revoked'' 401),
           revokeWhere (\<lambda>r. rt_family r = rc_family claims) d)
      | Some storedToken \<Rightarrow>
          if rt_revoked storedToken
          then (Inl (AuthError ''TOKEN_REUSE'' ''Refresh token has been revoked'' 401),
                revokeWhere (\<lambda>r. rt_family r = rc_family claims) d)
          else if rt_expiresAt storedToken < now
          then (Inl (AuthError ''TOKEN_EXPIRED'' ''Refresh token has expired'' 401), d)
          else
            (let d1 = revokeWhere (\<lambda>r. rt_id r = rt_id storedToken) d in
             case find (\<lambda>u. user_id u = rc_sub claims) (users d1) of
               None \<Rightarrow> (Inl (AuthError ''USER_NOT_FOUND'' ''User not found'' 401), d1)
             | Some u \<Rightarrow>
                 if user_deletedAt u \<noteq> None
                 then (Inl (AuthError ''USER_NOT_FOUND'' ''User not found'' 401), d1)
                 else
                   (case createTokenPair cfg now newId 0
                           (user_id u) (user_email u) (user_status u)
                           (Some (rc_family claims)) d1 of
                      (tokens, d2) \<Rightarrow> (Inr tokens, d2))))"

definition logoutUser :: "token_string option \<Rightarrow> uuid \<Rightarrow> db \<Rightarrow> unit \<times> db" where
  "logoutUser rawRefreshToken userId d =
     (case rawRefreshToken of
        None \<Rightarrow> ((), d)
      | Some raw \<Rightarrow>
          if raw = Str [] then ((), d)
          else
            (case find (\<lambda>r. rt_tokenHash r = hashToken raw \<and> rt_userId r = userId)
                    (refresh_tokens d) of
               None \<Rightarrow> ((), d)
             | Some storedToken \<Rightarrow>
                 ((), revokeWhere (\<lambda>r. rt_family r = rt_family storedToken) d)))"

definition resendVerification ::
  "time \<Rightarrow> uuid \<Rightarrow> string \<Rightarrow> string \<Rightarrow> db \<Rightarrow> string option \<times> db" where
  "resendVerification now newId rnd email d =
     (case find (\<lambda>u. user_email u = email) (users d) of
        None \<Rightarrow> (None, d)
      | Some u \<Rightarrow>
          if user_status u \<noteq> UNVERIFIED then (None, d)
          else
            (let d1 = d\<lparr>verification_tokens :=
                         filter (\<lambda>t. ot_userId t \<noteq> user_id u) (verification_tokens d)\<rparr>
             in case generateOpaqueToken rnd of
                  (raw, h) \<Rightarrow>
                    (Some raw,
                     d1\<lparr>verification_tokens := verification_tokens d1 @
                          [\<lparr>ot_id = newId, ot_tokenHash = h, ot_userId = user_id u,
                            ot_expiresAt = now + 24 * 60 * 60 * 1000\<rparr>]\<rparr>)))"

definition requestPasswordReset ::
  "time \<Rightarrow> uuid \<Rightarrow> string \<Rightarrow> string \<Rightarrow> db \<Rightarrow> string option \<times> db" where
  "requestPasswordReset now newId rnd email d =
     (case find (\<lambda>u. user_email u = email) (users d) of
        None \<Rightarrow> (None, d)
      | Some u \<Rightarrow>
          if user_deletedAt u \<noteq> None then (None, d)
          else
            (let d1 = d\<lparr>password_reset_tokens :=
                         filter (\<lambda>t. ot_userId t \<noteq> user_id u) (password_reset_tokens d)\<rparr>
             in case generateOpaqueToken rnd of
                  (raw, h) \<Rightarrow>
                    (Some raw,
                     d1\<lparr>password_reset_tokens := password_reset_tokens d1 @
                          [\<lparr>ot_id = newId, ot_tokenHash = h, ot_userId = user_id u,
                            ot_expiresAt = now + 15 * 60 * 1000\<rparr>]\<rparr>)))"

text \<open>
  \<open>prisma.$transaction([...])\<close> applies its writes in order and commits all of them or,
  when one throws, none. The three writes of \<open>resetPassword\<close>: the user update throws
  P2025 when no user row has the id; the token row was just read; \<open>updateMany\<close> cannot
  fail. \<open>hashPassword\<close> is the function of lib/password.
\<close>

definition resetPassword_transaction :: "opaque_token \<Rightarrow> string \<Rightarrow> db \<Rightarrow> error + db" where
  "resetPassword_transaction stored passwordHash d =
     (case find (\<lambda>u. user_id u = ot_userId stored) (users d) of
        None \<Rightarrow> Inl (PrismaError ''P2025'')
      | Some u \<Rightarrow>
          (let d1 = d\<lparr>users := map (\<lambda>x. if user_id x = ot_userId stored
                                       then x\<lparr>user_passwordHash := Some passwordHash\<rparr> else x)
                                (users d)\<rparr>;
               d2 = d1\<lparr>password_reset_tokens :=
                         filter (\<lambda>t. ot_id t \<noteq> ot_id stored) (password_reset_tokens d1)\<rparr>;
               d3 = revokeWhere (\<lambda>r. rt_userId r = ot_userId stored) d2
           in Inr d3))"

definition resetPassword ::
  "(string \<Rightarrow> string) \<Rightarrow> time \<Rightarrow> token_string \<Rightarrow> string \<Rightarrow> db \<Rightarrow> (error + unit) \<times> db" where
  "resetPassword hashPassword now rawToken newPassword d =
     (case find (\<lambda>t. ot_tokenHash t = hashToken rawToken) (password_reset_tokens d) of
        None \<Rightarrow> (Inl (AuthError ''INVALID_TOKEN'' ''Invalid or expired reset token'' 400), d)
      | Some stored \<Rightarrow>
          if ot_expiresAt stored < now
          then (Inl (AuthError ''TOKEN_EXPIRED'' ''Reset token has expired'' 400),
                d\<lparr>password_reset_tokens :=
                    filter (\<lambda>t. ot_id t \<noteq> ot_id stored) (password_reset_tokens d)\<rparr>)
          else
            (case resetPassword_transaction stored (hashPassword newPassword) d of
               Inl e \<Rightarrow> (Inl e, d)
             | Inr d' \<Rightarrow> (Inr (), d')))"

section \<open>Routes of the two recovery endpoints (routes/auth.ts, middleware/validate.ts)\<close>

text \<open>
  A request is its URL and its parsed JSON body, if it has one; the members of an object
  are a list of key and value, each key once. A response is its status and the members of
  the JSON object sent. The email job handed to the queue, if any, is kept beside the
  response: its type, the recipient and the token the template embeds; it is not part of
  the response. \<open>NODE_ENV\<close> is read from the process environment and may be unset.
  Calls of the audit log and the logger are left out. The hooks that the application
  registers for all routes (rate limit, origin check) run before a route is entered and
  are not part of it.
\<close>

datatype json =
  JNull | JBool bool | JNumber int | JString string | JArray "json list"
| JObject "(string \<times> json) list"

record request =
  req_url :: string
  req_body :: "json option"

record http_response =
  res_status :: nat
  res_payload :: "(string \<times> json) list"

datatype email_job = EmailJob string string string

text \<open>
  What the routes take from libraries: the pattern that zod's \<open>.email()\<close> tests a
  string against, JavaScript's \<open>toLowerCase\<close> on strings, and the issues (path and
  message) that zod reports for a body it rejects.
\<close>

record library =
  zod_email :: "string \<Rightarrow> bool"
  toLowerCase :: "string \<Rightarrow> string"
  zod_issues :: "json option \<Rightarrow> (string list \<times> string) list"

text \<open>
  \<open>z.object({ email: z.string().email().toLowerCase() })\<close>, the schema of either
  endpoint. \<open>safeParse\<close> accepts an object whose member \<open>email\<close> is a string that
  passes the email check, and returns the object with that one member, lower-cased; the
  parsed object is represented by the value of that member.
\<close>

definition resendVerificationSchema ::
  "library \<Rightarrow> json option \<Rightarrow> (string list \<times> string) list + string" where
  "resendVerificationSchema lib body =
     (case body of
        None \<Rightarrow> Inl (zod_issues lib body)
      | Some v \<Rightarrow>
         (case v of
            JObject members \<Rightarrow>
              (case map_of members ''email'' of
                 None \<Rightarrow> Inl (zod_issues lib body)
               | Some e \<Rightarrow>
                  (case e of
                     JString s \<Rightarrow>
                       if zod_email lib s then Inr (toLowerCase lib s)
                       else Inl (zod_issues lib body)
                   | _ \<Rightarrow> Inl (zod_issues lib body)))
          | _ \<Rightarrow> Inl (zod_issues lib body)))"

definition forgotPasswordSchema ::
  "library \<Rightarrow> json option \<Rightarrow> (string list \<times> string) list + string" where
  "forgotPasswordSchema lib body =
     (case body of
        None \<Rightarrow> Inl (zod_issues lib body)
      | Some v \<Rightarrow>
         (case v of
            JObject members \<Rightarrow>
              (case map_of members ''email'' of
                 None \<Rightarrow> Inl (zod_issues lib body)
               | Some e \<Rightarrow>
                  (case e of
                     JString s \<Rightarrow>
                       if zod_email lib s then Inr (toLowerCase lib s)
                       else Inl (zod_issues lib body)
                   | _ \<Rightarrow> Inl (zod_issues lib body)))
          | _ \<Rightarrow> Inl (zod_issues lib body)))"

text \<open>\<open>Array.prototype.join\<close> on the path of an issue.\<close>

fun array_join :: "string \<Rightarrow> string list \<Rightarrow> string" where
  "array_join sep [] = []"
| "array_join sep [x] = x"
| "array_join sep (x # y # ys) = x @ sep @ array_join sep (y # ys)"

definition zodErrorToProblem :: "(string list \<times> string) list \<Rightarrow> string \<Rightarrow> http_response" where
  "zodErrorToProblem error instance =
     \<lparr>res_status = 400,
      res_payload =
        [(''type'', JString ''https://api.taskmanagement.com/errors/validation-failed''),
         (''title'', JString ''Validation Failed''),
         (''status'', JNumber 400),
         (''detail'', JString ''Request validation failed''),
         (''instance'', JString instance),
         (''errors'',
          JArray (map (\<lambda>issue. JObject [(''field'', JString (array_join ''.'' (fst issue))),
                                       (''message'', JString (snd issue))]) error))]\<rparr>"

text \<open>
  The preHandler \<open>validateBody(schema)\<close>: on failure it sends the problem with status
  400, and the handler of the route is not run; otherwise the body of the request is
  replaced by the parsed data.
\<close>

definition validateBody ::
  "(json option \<Rightarrow> (string list \<times> string) list + 'a) \<Rightarrow> request \<Rightarrow> http_response + 'a" where
  "validateBody schema req =
     (case schema (req_body req) of
        Inl error \<Rightarrow> Inl (zodErrorToProblem error (req_url req))
      | Inr data \<Rightarrow> Inr data)"

text \<open>
  The handlers of the two routes, run on the parsed body; a route is its preHandler
  followed by its handler.
\<close>

definition resendVerificationHandler ::
  "config \<Rightarrow> time \<Rightarrow> uuid \<Rightarrow> string \<Rightarrow> string \<Rightarrow> db \<Rightarrow> (http_response \<times> email_job option) \<times> db" where
  "resendVerificationHandler cfg now newId rnd email d =
     (case resendVerification now newId rnd email d of
        (token, d') \<Rightarrow>
          (let truthy = (case token of None \<Rightarrow> False | Some s \<Rightarrow> s \<noteq> []);
               job = (if truthy \<and> ENABLE_EMAIL cfg
                      then Some (EmailJob ''verification'' email (the token)) else None);
               payload =
                 [(''message'', JString
                   ''If an unverified account exists, a verification email has been sent.'')]
                 @ (if NODE_ENV cfg \<noteq> Some ''production'' \<and> truthy
                    then [(''verificationToken'', JString (the token))] else [])
           in ((\<lparr>res_status = 200, res_payload = payload\<rparr>, job), d')))"

definition resendVerificationRoute ::
  "library \<Rightarrow> config \<Rightarrow> time \<Rightarrow> uuid \<Rightarrow> string \<Rightarrow> request \<Rightarrow> db
     \<Rightarrow> (http_response \<times> email_job option) \<times> db" where
  "resendVerificationRoute lib cfg now newId rnd req d =
     (case validateBody (resendVerificationSchema lib) req of
        Inl problem \<Rightarrow> ((problem, None), d)
      | Inr email \<Rightarrow> resendVerificationHandler cfg now newId rnd email d)"

definition forgotPasswordHandler ::
  "config \<Rightarrow> time \<Rightarrow> uuid \<Rightarrow> string \<Rightarrow> string \<Rightarrow> string \<Rightarrow> db
     \<Rightarrow> (http_response \<times> email_job option) \<times> db" where
  "forgotPasswordHandler cfg now newId rnd url email d =
     (if \<not> ENABLE_PASSWORD_RESET cfg
      then ((\<lparr>res_status = 400,
               res_payload =
                 [(''type'', JString ''https://api.taskmanagement.com/errors/feature-disabled''),
                  (''title'', JString ''Feature Disabled''),
                  (''status'', JNumber 400),
                  (''detail'', JString ''Password reset is currently disabled''),
                  (''instance'', JString url)]\<rparr>, None), d)
      else
       (case requestPasswordReset now newId rnd email d of
          (token, d') \<Rightarrow>
            (let truthy = (case token of None \<Rightarrow> False | Some s \<Rightarrow> s \<noteq> []);
                 job = (if truthy \<and> ENABLE_EMAIL cfg
                        then Some (EmailJob ''password-reset'' email (the token)) else None);
                 payload =
                   [(''message'', JString
                     ''If an account exists, a password reset link has been sent.'')]
                   @ (if NODE_ENV cfg \<noteq> Some ''production'' \<and> truthy
                      then [(''resetToken'', JString (the token))] else [])
             in ((\<lparr>res_status = 200, res_payload = payload\<rparr>, job), d'))))"

definition forgotPasswordRoute ::
  "library \<Rightarrow> config \<Rightarrow> time \<Rightarrow> uuid \<Rightarrow> string \<Rightarrow> request \<Rightarrow> db
     \<Rightarrow> (http_response \<times> email_job option) \<times> db" where
  "forgotPasswordRoute lib cfg now newId rnd req d =
     (case validateBody (forgotPasswordSchema lib) req of
        Inl problem \<Rightarrow> ((problem, None), d)
      | Inr email \<Rightarrow> forgotPasswordHandler cfg now newId rnd (req_url req) email d)"

section \<open>Specification-side definitions\<close>

text \<open>
  The transition table as the specification lists it, over the status enum; it is
  compared below with \<open>isValidTransition\<close>, which reads the table of the source.
\<close>

definition spec_transition_table :: "(TaskStatus \<times> TaskStatus) list" where
  "spec_transition_table =
     [(PENDING_ACCEPTANCE, OPEN), (PENDING_ACCEPTANCE, CLOSED),
      (OPEN, IN_PROGRESS), (OPEN, CLOSED),
      (IN_PROGRESS, COMPLETED), (IN_PROGRESS, OPEN), (IN_PROGRESS, CLOSED),
      (COMPLETED, CLOSED)]"

text \<open>
  The rows that the operations insert: the refresh-token row that \<open>createTokenPair\<close>
  leaves in the table (lemma \<open>createTokenPair_fresh\<close>), and the rows of the two recovery
  operations.
\<close>

definition successor :: "config \<Rightarrow> time \<Rightarrow> uuid \<Rightarrow> uuid \<Rightarrow> uuid \<Rightarrow> refresh_token" where
  "successor cfg now newId userId family =
     \<lparr>rt_id = newId,
      rt_tokenHash = hashToken (signRefreshToken cfg now userId newId family),
      rt_userId = userId, rt_family = family, rt_revoked = False,
      rt_expiresAt = now + JWT_REFRESH_EXPIRY_SECONDS cfg * 1000,
      rt_createdAt = now\<rparr>"

definition verification_row :: "time \<Rightarrow> uuid \<Rightarrow> string \<Rightarrow> uuid \<Rightarrow> opaque_token" where
  "verification_row now newId rnd userId =
     \<lparr>ot_id = newId, ot_tokenHash = hashToken (Str rnd), ot_userId = userId,
      ot_expiresAt = now + 24 * 60 * 60 * 1000\<rparr>"

definition reset_row :: "time \<Rightarrow> uuid \<Rightarrow> string \<Rightarrow> uuid \<Rightarrow> opaque_token" where
  "reset_row now newId rnd userId =
     \<lparr>ot_id = newId, ot_tokenHash = hashToken (Str rnd), ot_userId = userId,
      ot_expiresAt = now + 15 * 60 * 1000\<rparr>"

text \<open>
  \<open>revoke_if P\<close> is the effect of an \<open>updateMany\<close> or \<open>update\<close> with
  \<open>data: {revoked: true}\<close> on one row.
\<close>

definition revoke_if :: "(refresh_token \<Rightarrow> bool) \<Rightarrow> refresh_token \<Rightarrow> refresh_token" where
  "revoke_if P r = (if P r then r\<lparr>rt_revoked := True\<rparr> else r)"

text \<open>
  A stored row is consistent when its hash, if it is the digest of a signed refresh token,
  is the digest of a token that claims the row's own family. Every row that
  \<open>createTokenPair\<close> writes is consistent, and no operation changes the hash or the
  family of a row afterwards.
\<close>

definition row_consistent :: "refresh_token \<Rightarrow> bool" where
  "row_consistent r =
     (case rt_tokenHash r of Sha256 (RefreshJwt c) \<Rightarrow> rc_family c = rt_family r | _ \<Rightarrow> True)"

definition tokens_consistent :: "db \<Rightarrow> bool" where
  "tokens_consistent d = list_all row_consistent (refresh_tokens d)"

text \<open>
  A token is live in a family when it belongs to it and is not revoked; a family is revoked
  when it has rows and none of them is live.
\<close>

definition live_tokens :: "uuid \<Rightarrow> db \<Rightarrow> refresh_token list" where
  "live_tokens f d = filter (\<lambda>r. rt_family r = f \<and> \<not> rt_revoked r) (refresh_tokens d)"

definition family_revoked :: "uuid \<Rightarrow> db \<Rightarrow> bool" where
  "family_revoked f d =
     (list_ex (\<lambda>r. rt_family r = f) (refresh_tokens d)
      \<and> list_all (\<lambda>r. rt_family r = f \<longrightarrow> rt_revoked r) (refresh_tokens d))"

text \<open>
  The invariant of the data model on one task, and one request to the task service; every
  other operation of the system leaves the task table as it is (no operation deletes a
  user row, so the foreign key of the assignee never nulls it).
\<close>

definition task_ok :: "task \<Rightarrow> bool" where
  "task_ok t =
     (task_status t = PENDING_ACCEPTANCE \<longrightarrow>
        task_assigneeId t \<noteq> None \<and> task_acceptedAt t = None)"

inductive task_step :: "db \<Rightarrow> db \<Rightarrow> bool" where
  create: "createTask cfg now newId input userId d = (res, d') \<Longrightarrow> task_step d d'"
| update: "updateTask now taskId uinput userId d = (res, d') \<Longrightarrow> task_step d d'"
| status: "updateTaskStatus now taskId newStatus userId d = (res, d') \<Longrightarrow> task_step d d'"
| accept: "acceptTask now taskId userId d = (res, d') \<Longrightarrow> task_step d d'"
| assign: "assignTask cfg now taskId assigneeId userId d = (res, d') \<Longrightarrow> task_step d d'"
| delete: "deleteTask now taskId userId d = (ures, d') \<Longrightarrow> task_step d d'"
| other: "tasks d' = tasks d \<Longrightarrow> task_step d d'"

section \<open>Example stores\<close>

text \<open>
  Six users (Carol is a soft-deleted account without a password hash, Erin a soft-deleted
  one with a hash, Dave is suspended, Frank is suspended and soft-deleted, Bob is
  unverified), two groups (group 7 has one
  admin, group 8 has two), three tasks of group 7 (task 32 is soft-deleted) and one
  password-reset token of Alice. \<open>ex_db1\<close> is the store after Alice has logged in;
  \<open>ex_db2\<close> holds a family of Alice's with a rotated token and its live successor,
  and a live token of Erin's.
\<close>

definition ex_verifyPassword :: "string \<Rightarrow> string \<Rightarrow> bool" where
  "ex_verifyPassword h p = (h = p)"

definition ex_hashPassword :: "string \<Rightarrow> string" where
  "ex_hashPassword p = ''pw-'' @ p"

definition ex_cfg :: config where
  "ex_cfg = \<lparr>NODE_ENV = Some ''production'', JWT_ACCESS_EXPIRY_SECONDS = 900,
             JWT_REFRESH_EXPIRY_SECONDS = 604800, ENABLE_EMAIL = True,
             ENABLE_ASSIGNMENTS = True, ENABLE_PASSWORD_RESET = True\<rparr>"

definition dev_cfg :: config where
  "dev_cfg = \<lparr>NODE_ENV = Some ''development'', JWT_ACCESS_EXPIRY_SECONDS = 900,
              JWT_REFRESH_EXPIRY_SECONDS = 604800, ENABLE_EMAIL = False,
              ENABLE_ASSIGNMENTS = False, ENABLE_PASSWORD_RESET = True\<rparr>"

definition alice :: user where
  "alice = \<lparr>user_id = 1, user_email = ''alice@example.com'', user_passwordHash = Some ''pw-alice'',
            user_name = ''Alice'', user_status = ACTIVE, user_createdAt = 0,
            user_deletedAt = None\<rparr>"

definition bob :: user where
  "bob = \<lparr>user_id = 2, user_email = ''bob@example.com'', user_passwordHash = Some ''pw-bob'',
          user_name = ''Bob'', user_status = UNVERIFIED, user_createdAt = 0,
          user_deletedAt = None\<rparr>"

definition carol :: user where
  "carol = \<lparr>user_id = 3, user_email = ''carol@example.com'', user_passwordHash = None,
            user_name = ''Carol'', user_status = ACTIVE, user_createdAt = 0,
            user_deletedAt = Some 50\<rparr>"

definition dave :: user where
  "dave = \<lparr>user_id = 4, user_email = ''dave@example.com'', user_passwordHash = Some ''pw-dave'',
           user_name = ''Dave'', user_status = SUSPENDED, user_createdAt = 0,
           user_deletedAt = None\<rparr>"

definition erin :: user where
  "erin = \<lparr>user_id = 5, user_email = ''erin@example.com'', user_passwordHash = Some ''pw-erin'',
           user_name = ''Erin'', user_status = ACTIVE, user_createdAt = 0,
           user_deletedAt = Some 60\<rparr>"

definition frank :: user where
  "frank = \<lparr>user_id = 6, user_email = ''frank@example.com'', user_passwordHash = Some ''pw-frank'',
            user_name = ''Frank'', user_status = SUSPENDED, user_createdAt = 0,
            user_deletedAt = Some 70\<rparr>"

definition ex_claims :: "uuid \<Rightarrow> uuid \<Rightarrow> uuid \<Rightarrow> refresh_claims" where
  "ex_claims userId tokenId family =
     \<lparr>rc_sub = userId, rc_tokenId = tokenId, rc_family = family, rc_iat = 0, rc_exp = 604800\<rparr>"

definition ex_row :: "uuid \<Rightarrow> uuid \<Rightarrow> uuid \<Rightarrow> bool \<Rightarrow> refresh_token" where
  "ex_row userId tokenId family revoked =
     \<lparr>rt_id = tokenId, rt_tokenHash = Sha256 (RefreshJwt (ex_claims userId tokenId family)),
      rt_userId = userId, rt_family = family, rt_revoked = revoked,
      rt_expiresAt = 604800000, rt_createdAt = 0\<rparr>"

definition ex_task :: "uuid \<Rightarrow> TaskStatus \<Rightarrow> uuid option \<Rightarrow> time option \<Rightarrow> time option \<Rightarrow> task" where
  "ex_task taskId status assignee accepted deleted =
     \<lparr>task_id = taskId, task_title = ''Write report'', task_description = None,
      task_status = status, task_groupId = 7, task_createdById = 1,
      task_assigneeId = assignee, task_acceptedAt = accepted, task_createdAt = 0,
      task_updatedAt = 0, task_deletedAt = deleted\<rparr>"

definition ex_db0 :: db where
  "ex_db0 =
     \<lparr>users = [alice, bob, carol, dave, erin, frank],
      refresh_tokens = [],
      verification_tokens = [],
      password_reset_tokens =
        [\<lparr>ot_id = 40, ot_tokenHash = Sha256 (Str ''c0ffee''), ot_userId = 1,
          ot_expiresAt = 900000\<rparr>],
      group_members =
        [\<lparr>gm_userId = 1, gm_groupId = 7, gm_role = ADMIN\<rparr>,
         \<lparr>gm_userId = 2, gm_groupId = 7, gm_role = MEMBER\<rparr>,
         \<lparr>gm_userId = 1, gm_groupId = 8, gm_role = ADMIN\<rparr>,
         \<lparr>gm_userId = 4, gm_groupId = 8, gm_role = ADMIN\<rparr>],
      tasks =
        [ex_task 30 PENDING_ACCEPTANCE (Some 2) None None,
         ex_task 31 OPEN (Some 2) (Some 5) None,
         ex_task 32 OPEN None None (Some 9)]\<rparr>"

definition ex_db1 :: db where
  "ex_db1 = ex_db0\<lparr>refresh_tokens := [ex_row 1 10 100 False]\<rparr>"

definition ex_db2 :: db where
  "ex_db2 = ex_db0\<lparr>refresh_tokens :=
               [ex_row 1 20 200 True, ex_row 1 21 200 False, ex_row 5 22 300 False]\<rparr>"

text \<open>
  Stand-ins for the library functions of the routes. They agree with zod's email pattern
  and with \<open>toLowerCase\<close> on the addresses used below: an address holds an \<open>@\<close>,
  and an ASCII capital is replaced by its small letter. A request to an endpoint carries
  an object with the one member \<open>email\<close>.
\<close>

definition ex_email :: "string \<Rightarrow> bool" where
  "ex_email s = (CHR ''@'' \<in> set s)"

definition ex_toLowerCase :: "string \<Rightarrow> string" where
  "ex_toLowerCase s =
     map (\<lambda>c. case map_of (zip ''ABCDEFGHIJKLMNOPQRSTUVWXYZ''
                                 ''abcdefghijklmnopqrstuvwxyz'') c of
                Some l \<Rightarrow> l
              | None \<Rightarrow> c) s"

definition ex_lib :: library where
  "ex_lib = \<lparr>zod_email = ex_email, toLowerCase = ex_toLowerCase,
             zod_issues = (\<lambda>body. [([''email''], ''Invalid email'')])\<rparr>"

definition ex_request :: "string \<Rightarrow> string \<Rightarrow> request" where
  "ex_request url email = \<lparr>req_url = url, req_body = Some (JObject [(''email'', JString email)])\<rparr>"

section \<open>Auxiliary lemmas\<close>

subsection \<open>Lists and lookups\<close>

lemma find_map_preserve:
  "(\<And>x. P (g x) = P x) \<Longrightarrow> find P (map g xs) = map_option g (find P xs)"
  by (induction xs) simp_all

lemma find_append_Some: "find P xs = Some x \<Longrightarrow> find P (xs @ ys) = Some x"
  by (induction xs) (auto split: if_splits)

lemma find_pk:
  "distinct (map k xs) \<Longrightarrow> find (\<lambda>x. k x = i \<and> Q x) xs = Some t \<Longrightarrow> find (\<lambda>x. k x = i) xs = Some t"
proof (induction xs)
  case Nil then show ?case by simp
next
  case (Cons x xs)
  show ?case
  proof (cases "k x = i")
    case True
    then have "i \<notin> k ` set xs" using Cons.prems(1) by auto
    then have "find (\<lambda>x. k x = i \<and> Q x) xs = None"
      by (auto simp: find_None_iff)
    with Cons.prems(2) True show ?thesis by (auto split: if_splits)
  next
    case False
    with Cons show ?thesis by simp
  qed
qed

lemma find_unique_key:
  assumes "distinct (map k xs)" and "x \<in> set xs" and "k x = e"
  shows "find (\<lambda>u. k u = e) xs = Some x"
  using assms
proof (induction xs)
  case Nil then show ?case by simp
next
  case (Cons a xs)
  then show ?case by (auto simp: image_iff)
qed

lemma count_after_delete:
  assumes "distinct (map k xs)" and "find (\<lambda>x. k x = i) xs = Some m" and "P m"
  shows "Suc (length (filter P (filter (\<lambda>x. k x \<noteq> i) xs))) = length (filter P xs)"
  using assms
proof (induction xs)
  case Nil then show ?case by simp
next
  case (Cons x xs)
  show ?case
  proof (cases "k x = i")
    case True
    then have "i \<notin> k ` set xs" using Cons.prems(1) by auto
    then have "filter (\<lambda>x. k x \<noteq> i) xs = xs" by (auto simp: filter_id_conv)
    moreover have "x = m" using True Cons.prems(2) by simp
    ultimately show ?thesis using True Cons.prems(3) by simp
  next
    case False
    with Cons show ?thesis by simp
  qed
qed

lemmas ex_defs =
  ex_verifyPassword_def ex_hashPassword_def ex_cfg_def dev_cfg_def alice_def bob_def carol_def dave_def erin_def frank_def ex_claims_def
  ex_row_def ex_task_def ex_db0_def ex_db1_def ex_db2_def

subsection \<open>Task lifecycle\<close>

lemma isValidTransition_table:
  "isValidTransition (status_name a) (status_name b) \<longleftrightarrow> (a, b) \<in> set spec_transition_table"
  by (cases a; cases b)
     (simp_all add: isValidTransition_def VALID_TRANSITIONS_def status_name_def
        spec_transition_table_def)

lemma status_of_name_status_name: "status_of_name (status_name s) = Some s"
  by (cases s) (simp_all add: status_of_name_def status_name_def)

lemma isValidTransition_status_of_name:
  "isValidTransition (status_name a) n \<Longrightarrow> \<exists>s. status_of_name n = Some s \<and> s \<noteq> PENDING_ACCEPTANCE \<and> n = status_name s"
  by (cases a)
     (auto simp add: isValidTransition_def VALID_TRANSITIONS_def status_name_def
        status_of_name_def)

lemma getTaskById_visible:
  assumes "find (\<lambda>x. task_id x = taskId \<and> task_deletedAt x = None) (tasks d) = Some t"
      and "findMembership userId (task_groupId t) d \<noteq> None"
  shows "getTaskById taskId userId d = Inr t"
  using assms by (auto simp: getTaskById_def assertGroupMember_def split: option.splits)

lemma getTaskById_Inr:
  "getTaskById taskId userId d = Inr t \<Longrightarrow>
     find (\<lambda>x. task_id x = taskId \<and> task_deletedAt x = None) (tasks d) = Some t
     \<and> findMembership userId (task_groupId t) d \<noteq> None"
  by (auto simp: getTaskById_def assertGroupMember_def split: option.splits sum.splits)

lemma task_update_visible:
  assumes pk: "distinct (map task_id (tasks d))"
      and vis: "find (\<lambda>x. task_id x = taskId \<and> task_deletedAt x = None) (tasks d) = Some t"
      and f: "\<And>x. task_id (f x) = task_id x \<and> task_deletedAt (f x) = task_deletedAt x"
  shows "task_update now taskId f d =
           (Inr ((f t)\<lparr>task_updatedAt := now\<rparr>),
            d\<lparr>tasks := map (\<lambda>x. if task_id x = taskId then (f x)\<lparr>task_updatedAt := now\<rparr> else x) (tasks d)\<rparr>)"
    and "find (\<lambda>x. task_id x = taskId \<and> task_deletedAt x = None)
           (map (\<lambda>x. if task_id x = taskId then (f x)\<lparr>task_updatedAt := now\<rparr> else x) (tasks d))
         = Some ((f t)\<lparr>task_updatedAt := now\<rparr>)"
proof -
  have "find (\<lambda>x. task_id x = taskId) (tasks d) = Some t"
    using find_pk[OF pk vis] .
  then show "task_update now taskId f d =
           (Inr ((f t)\<lparr>task_updatedAt := now\<rparr>),
            d\<lparr>tasks := map (\<lambda>x. if task_id x = taskId then (f x)\<lparr>task_updatedAt := now\<rparr> else x) (tasks d)\<rparr>)"
    by (simp add: task_update_def)
  have "find (\<lambda>x. task_id x = taskId \<and> task_deletedAt x = None)
           (map (\<lambda>x. if task_id x = taskId then (f x)\<lparr>task_updatedAt := now\<rparr> else x) (tasks d))
        = map_option (\<lambda>x. if task_id x = taskId then (f x)\<lparr>task_updatedAt := now\<rparr> else x)
            (find (\<lambda>x. task_id x = taskId \<and> task_deletedAt x = None) (tasks d))"
    by (rule find_map_preserve) (simp add: f)
  moreover have "task_id t = taskId" using vis by (auto simp: find_Some_iff)
  ultimately show "find (\<lambda>x. task_id x = taskId \<and> task_deletedAt x = None)
           (map (\<lambda>x. if task_id x = taskId then (f x)\<lparr>task_updatedAt := now\<rparr> else x) (tasks d))
         = Some ((f t)\<lparr>task_updatedAt := now\<rparr>)"
    using vis by simp
qed





text \<open>
  From an empty task table, every task with status \<open>PENDING_ACCEPTANCE\<close> has an
  assignee and a null \<open>acceptedAt\<close>.
\<close>

lemma task_update_ok:
  assumes "task_update now taskId f d = (res, d')"
      and "list_all task_ok (tasks d)"
      and "\<And>x. task_ok x \<Longrightarrow> task_ok ((f x)\<lparr>task_updatedAt := now\<rparr>)"
  shows "list_all task_ok (tasks d')"
  using assms
  by (auto simp: task_update_def list_all_iff split: option.splits)

lemma task_step_ok:
  assumes "task_step d d'" and ok: "list_all task_ok (tasks d)"
  shows "list_all task_ok (tasks d')"
  using assms(1)
proof cases
  case (create cfg now newId input userId res)
  then show ?thesis using ok
    by (auto simp: createTask_def Let_def list_all_iff task_ok_def
             split: sum.splits option.splits if_splits)
next
  case (update now taskId uinput userId res)
  then show ?thesis using ok
    by (auto simp: updateTask_def task_ok_def split: sum.splits if_splits
             elim!: task_update_ok)
next
  case (status now taskId newStatus userId res)
  show ?thesis
  proof (cases "getTaskById taskId userId d")
    case (Inl e)
    with status ok show ?thesis by (simp add: updateTaskStatus_def)
  next
    case (Inr t)
    show ?thesis
    proof (cases "isValidTransition (status_name (task_status t)) newStatus")
      case False
      with status Inr ok show ?thesis by (simp add: updateTaskStatus_def)
    next
      case True
      from isValidTransition_status_of_name[OF True] obtain s where
        s: "status_of_name newStatus = Some s" "s \<noteq> PENDING_ACCEPTANCE" by blast
      with status Inr True have
        "task_update now taskId (\<lambda>x. x\<lparr>task_status := s\<rparr>) d = (res, d')"
        by (simp add: updateTaskStatus_def)
      from task_update_ok[OF this ok] s(2) show ?thesis by (simp add: task_ok_def)
    qed
  qed
next
  case (accept now taskId userId res)
  then show ?thesis using ok
    by (auto simp: acceptTask_def task_ok_def split: sum.splits if_splits
             elim!: task_update_ok)
next
  case (assign cfg now taskId assigneeId userId res)
  then show ?thesis using ok
    by (auto simp: assignTask_def task_ok_def split: sum.splits if_splits
             elim!: task_update_ok)
next
  case (delete now taskId userId ures)
  then show ?thesis using ok
    by (auto simp: deleteTask_def task_ok_def split: sum.splits if_splits prod.splits
             elim!: task_update_ok)
next
  case other
  then show ?thesis using ok by simp
qed

lemma pending_tasks_unaccepted:
  assumes "task_step\<^sup>*\<^sup>* d0 d" and "tasks d0 = []" and "t \<in> set (tasks d)"
      and "task_status t = PENDING_ACCEPTANCE"
  shows "task_assigneeId t \<noteq> None \<and> task_acceptedAt t = None"
proof -
  have "list_all task_ok (tasks d)"
    using assms(1,2)
    by (induction rule: rtranclp_induct) (auto intro: task_step_ok)
  with assms(3,4) show ?thesis by (auto simp: list_all_iff task_ok_def)
qed

subsection \<open>Refresh-token table\<close>

lemma refresh_tokens_revokeWhere [simp]:
  "refresh_tokens (revokeWhere P d) =
     map (\<lambda>r. if P r then r\<lparr>rt_revoked := True\<rparr> else r) (refresh_tokens d)"
  and users_revokeWhere [simp]: "users (revokeWhere P d) = users d"
  by (simp_all add: revokeWhere_def)

lemma createTokenPair_fresh:
  assumes "newId \<notin> rt_id ` set (refresh_tokens d)"
  shows "createTokenPair cfg now newId randomUUID userId email status family d =
     (\<lparr>accessToken = signAccessToken cfg now userId email status,
       refreshToken = signRefreshToken cfg now userId newId
                        (case family of Some f \<Rightarrow> f | None \<Rightarrow> randomUUID)\<rparr>,
      d\<lparr>refresh_tokens := refresh_tokens d @
          [\<lparr>rt_id = newId,
            rt_tokenHash = Sha256 (signRefreshToken cfg now userId newId
                                     (case family of Some f \<Rightarrow> f | None \<Rightarrow> randomUUID)),
            rt_userId = userId,
            rt_family = (case family of Some f \<Rightarrow> f | None \<Rightarrow> randomUUID),
            rt_revoked = False,
            rt_expiresAt = now + JWT_REFRESH_EXPIRY_SECONDS cfg * 1000,
            rt_createdAt = now\<rparr>]\<rparr>)"
proof -
  have "map (\<lambda>r. if rt_id r = newId then r\<lparr>rt_tokenHash := h\<rparr> else r) (refresh_tokens d)
          = refresh_tokens d" for h
    using assms by (intro map_idI) auto
  then show ?thesis
    by (simp add: createTokenPair_def Let_def hashToken_def)
qed

lemma refreshTokens_success:
  assumes fresh: "newId \<notin> rt_id ` set (refresh_tokens d)"
      and v: "verifyRefreshToken now raw = Some c"
      and f: "find (\<lambda>r. rt_tokenHash r = hashToken raw \<and> rt_userId r = rc_sub c)
                (refresh_tokens d) = Some st"
      and live: "\<not> rt_revoked st" "\<not> rt_expiresAt st < now"
      and u: "find (\<lambda>u. user_id u = rc_sub c) (users d) = Some usr" "user_deletedAt usr = None"
  shows "refreshTokens cfg now newId raw d =
           (Inr \<lparr>accessToken = signAccessToken cfg now (user_id usr) (user_email usr) (user_status usr),
                 refreshToken = signRefreshToken cfg now (rc_sub c) newId (rc_family c)\<rparr>,
            (revokeWhere (\<lambda>r. rt_id r = rt_id st) d)
              \<lparr>refresh_tokens :=
                 map (\<lambda>r. if rt_id r = rt_id st then r\<lparr>rt_revoked := True\<rparr> else r)
                   (refresh_tokens d)
                 @ [successor cfg now newId (rc_sub c) (rc_family c)]\<rparr>)"
proof -
  have uid: "user_id usr = rc_sub c" using u(1) by (auto simp: find_Some_iff)
  have fresh1: "newId \<notin> rt_id ` set (refresh_tokens (revokeWhere (\<lambda>r. rt_id r = rt_id st) d))"
    using fresh by (auto simp: image_iff)
  show ?thesis
    using v f live u uid
    by (simp add: refreshTokens_def createTokenPair_fresh[OF fresh1] successor_def hashToken_def)
qed

lemma verifyRefreshToken_Some:
  "verifyRefreshToken now raw = Some c \<Longrightarrow> raw = RefreshJwt c"
  by (auto simp: verifyRefreshToken_def split: token_string.splits if_splits)

lemma verify_same_claims:
  "verifyRefreshToken t1 raw = Some c \<Longrightarrow> verifyRefreshToken t2 raw \<noteq> None \<Longrightarrow>
     verifyRefreshToken t2 raw = Some c"
  by (auto simp: verifyRefreshToken_def split: token_string.splits if_splits)

lemma verify_signed_family:
  "verifyRefreshToken t (signRefreshToken cfg now uid tid fam) = Some c \<Longrightarrow> rc_family c = fam"
  by (auto simp: verifyRefreshToken_def signRefreshToken_def split: if_splits)

lemma tokens_consistent_lookup:
  assumes "tokens_consistent d"
      and "find (\<lambda>r. rt_tokenHash r = hashToken (RefreshJwt c) \<and> rt_userId r = s)
             (refresh_tokens d) = Some st"
  shows "rt_family st = rc_family c"
proof -
  from assms(2) have "st \<in> set (refresh_tokens d)" "rt_tokenHash st = Sha256 (RefreshJwt c)"
    by (auto simp: find_Some_iff hashToken_def)
  with assms(1) show ?thesis
    by (auto simp: tokens_consistent_def row_consistent_def list_all_iff)
qed

lemma refreshTokens_revoked_family:
  assumes cons: "tokens_consistent d"
      and dead: "\<forall>r\<in>set (refresh_tokens d). rt_family r = rc_family c \<longrightarrow> rt_revoked r"
      and v: "verifyRefreshToken now raw = Some c"
  shows "refreshTokens cfg now newId raw d =
           (Inl (AuthError ''TOKEN_REUSE'' ''Refresh token has been revoked'' 401),
            revokeWhere (\<lambda>r. rt_family r = rc_family c) d)"
proof (cases "find (\<lambda>r. rt_tokenHash r = hashToken raw \<and> rt_userId r = rc_sub c) (refresh_tokens d)")
  case None
  with v show ?thesis by (simp add: refreshTokens_def)
next
  case (Some st)
  have raw: "raw = RefreshJwt c" using verifyRefreshToken_Some[OF v] .
  have "rt_family st = rc_family c"
    using tokens_consistent_lookup[OF cons] Some raw by simp
  moreover have "st \<in> set (refresh_tokens d)" using Some by (auto simp: find_Some_iff)
  ultimately have "rt_revoked st" using dead by blast
  with v Some show ?thesis by (simp add: refreshTokens_def)
qed

lemma revoke_if_simps [simp]:
  "rt_id (revoke_if P r) = rt_id r"
  "rt_family (revoke_if P r) = rt_family r"
  "rt_tokenHash (revoke_if P r) = rt_tokenHash r"
  "rt_userId (revoke_if P r) = rt_userId r"
  "rt_revoked (revoke_if P r) = (P r \<or> rt_revoked r)"
  by (simp_all add: revoke_if_def)

lemma revokeWhere_rows:
  "refresh_tokens (revokeWhere P d) = map (revoke_if P) (refresh_tokens d)"
  by (simp add: revoke_if_def[abs_def])

lemma map_revoke_if_False: "map (revoke_if (\<lambda>r. False)) xs = xs"
  by (simp add: revoke_if_def[abs_def])

text \<open>
  The rows of the refresh-token table after one operation: either some rows were revoked,
  or a row of a fresh family was appended (login), or the presented row was revoked and
  its successor appended (rotation).
\<close>

lemma loginUser_rows:
  assumes "newId \<notin> rt_id ` set (refresh_tokens d)"
      and "loginUser verifyPassword cfg now newId randomUUID input d = (res, d')"
  shows "refresh_tokens d' = refresh_tokens d
       \<or> (\<exists>uid. refresh_tokens d' =
                  refresh_tokens d @ [successor cfg now newId uid randomUUID])"
  using assms(2)
  by (auto simp: loginUser_def createTokenPair_fresh[OF assms(1)] successor_def hashToken_def
           split: option.splits if_splits)

lemma refreshTokens_rows:
  assumes fresh: "newId \<notin> rt_id ` set (refresh_tokens d)"
      and r: "refreshTokens cfg now newId raw d = (res, d')"
  shows "(\<exists>P. refresh_tokens d' = map (revoke_if P) (refresh_tokens d))
       \<or> (\<exists>c st. st \<in> set (refresh_tokens d) \<and> \<not> rt_revoked st
                 \<and> rt_tokenHash st = Sha256 (RefreshJwt c)
                 \<and> refresh_tokens d' =
                     map (revoke_if (\<lambda>r. rt_id r = rt_id st)) (refresh_tokens d)
                     @ [successor cfg now newId (rc_sub c) (rc_family c)])"
proof (cases "verifyRefreshToken now raw")
  case None
  with r have "d' = d" by (simp add: refreshTokens_def)
  then show ?thesis using map_revoke_if_False[of "refresh_tokens d"] by metis
next
  case (Some c)
  note v = this
  have raw: "raw = RefreshJwt c" using verifyRefreshToken_Some[OF v] .
  show ?thesis
  proof (cases "find (\<lambda>r. rt_tokenHash r = hashToken raw \<and> rt_userId r = rc_sub c) (refresh_tokens d)")
    case None
    with r v have "d' = revokeWhere (\<lambda>r. rt_family r = rc_family c) d"
      by (simp add: refreshTokens_def)
    then show ?thesis using revokeWhere_rows by blast
  next
    case (Some st)
    note f = this
    have stin: "st \<in> set (refresh_tokens d)" "rt_tokenHash st = Sha256 (RefreshJwt c)"
      using f raw by (auto simp: find_Some_iff hashToken_def)
    consider (rev) "rt_revoked st" | (exp) "\<not> rt_revoked st" "rt_expiresAt st < now"
      | (nouser) "\<not> rt_revoked st" "\<not> rt_expiresAt st < now"
          "find (\<lambda>u. user_id u = rc_sub c) (users d) = None"
      | (user) usr where "\<not> rt_revoked st" "\<not> rt_expiresAt st < now"
          "find (\<lambda>u. user_id u = rc_sub c) (users d) = Some usr"
      by (cases "find (\<lambda>u. user_id u = rc_sub c) (users d)") auto
    then show ?thesis
    proof cases
      case rev
      with r v f have "d' = revokeWhere (\<lambda>r. rt_family r = rc_family c) d"
        by (simp add: refreshTokens_def)
      then show ?thesis using revokeWhere_rows by blast
    next
      case exp
      with r v f have "d' = d" by (simp add: refreshTokens_def)
      then show ?thesis using map_revoke_if_False[of "refresh_tokens d"] by metis
    next
      case nouser
      with r v f have "d' = revokeWhere (\<lambda>r. rt_id r = rt_id st) d"
        by (simp add: refreshTokens_def)
      then show ?thesis using revokeWhere_rows by blast
    next
      case user
      show ?thesis
      proof (cases "user_deletedAt usr = None")
        case False
        with user r v f have "d' = revokeWhere (\<lambda>r. rt_id r = rt_id st) d"
          by (auto simp add: refreshTokens_def)
        then show ?thesis using revokeWhere_rows by blast
      next
        case True
        from refreshTokens_success[OF fresh v f user(1,2,3) True, of cfg] r
        have "refresh_tokens d' = map (revoke_if (\<lambda>r. rt_id r = rt_id st)) (refresh_tokens d)
                     @ [successor cfg now newId (rc_sub c) (rc_family c)]"
          by (auto simp: revoke_if_def[abs_def])
        with stin user(1) show ?thesis by blast
      qed
    qed
  qed
qed

lemma logoutUser_rows:
  assumes "logoutUser rawOpt userId d = (u, d')"
  shows "\<exists>P. refresh_tokens d' = map (revoke_if P) (refresh_tokens d)"
proof -
  have "d' = d \<or> (\<exists>f. d' = revokeWhere (\<lambda>r. rt_family r = f) d)"
    using assms by (auto simp: logoutUser_def split: option.splits if_splits)
  then show ?thesis
    using map_revoke_if_False[of "refresh_tokens d"] revokeWhere_rows by metis
qed

lemma resetPassword_rows:
  assumes "resetPassword hashPassword now raw newPassword d = (res, d')"
  shows "\<exists>P. refresh_tokens d' = map (revoke_if P) (refresh_tokens d)"
proof -
  have "refresh_tokens d' = refresh_tokens d
        \<or> (\<exists>uid. refresh_tokens d' = map (revoke_if (\<lambda>r. rt_userId r = uid)) (refresh_tokens d))"
    using assms
    by (auto simp: resetPassword_def resetPassword_transaction_def Let_def revokeWhere_rows
             simp del: refresh_tokens_revokeWhere
             split: option.splits if_splits sum.splits)
  then show ?thesis
    using map_revoke_if_False[of "refresh_tokens d"] by metis
qed

lemma refreshTokens_cut:
  "refreshTokens cfg now newId raw d =
     (case refreshTokens_read now raw d of
        Inl e \<Rightarrow> (Inl e, d)
      | Inr (claims, stored) \<Rightarrow> refreshTokens_rest cfg now newId claims stored d)"
  by (simp add: refreshTokens_def refreshTokens_read_def refreshTokens_rest_def
        split: option.splits)

lemma tokens_consistent_iff:
  "tokens_consistent d \<longleftrightarrow> (\<forall>r\<in>set (refresh_tokens d). row_consistent r)"
  by (simp add: tokens_consistent_def list_all_iff)

lemma row_consistent_revoke_if [simp]: "row_consistent (revoke_if P r) = row_consistent r"
  by (simp add: row_consistent_def split: token_hash.splits token_string.splits)

lemma row_consistent_successor [simp]: "row_consistent (successor cfg now newId uid fam)"
  by (simp add: row_consistent_def successor_def hashToken_def signRefreshToken_def)

lemma successor_simps [simp]:
  "rt_family (successor cfg now newId uid fam) = fam"
  "rt_revoked (successor cfg now newId uid fam) = False"
  "rt_id (successor cfg now newId uid fam) = newId"
  "rt_userId (successor cfg now newId uid fam) = uid"
  by (simp_all add: successor_def)

lemma family_revoked_iff:
  "family_revoked f d \<longleftrightarrow>
     (f \<in> rt_family ` set (refresh_tokens d)
      \<and> (\<forall>r\<in>set (refresh_tokens d). rt_family r = f \<longrightarrow> rt_revoked r))"
  by (auto simp: family_revoked_def list_all_iff list_ex_iff)

text \<open>
  A consistent table in which a family is revoked stays so when rows are revoked, and
  when a row of another family is appended.
\<close>

lemma revoked_rows_keep:
  assumes "refresh_tokens d' = map (revoke_if P) (refresh_tokens d)"
      and "tokens_consistent d" and "family_revoked f d"
  shows "tokens_consistent d' \<and> family_revoked f d'"
  using assms by (force simp: tokens_consistent_iff family_revoked_iff image_iff)

lemma appended_row_keeps:
  assumes "refresh_tokens d' =
             map (revoke_if P) (refresh_tokens d) @ [successor cfg now newId uid fam]"
      and "fam \<noteq> f" and "tokens_consistent d" and "family_revoked f d"
  shows "tokens_consistent d' \<and> family_revoked f d'"
  using assms by (force simp: tokens_consistent_iff family_revoked_iff image_iff)

lemma loginUser_keeps_revoked:
  assumes cons: "tokens_consistent d" and dead: "family_revoked f d"
      and fam: "randomUUID \<notin> rt_family ` set (refresh_tokens d)"
      and fresh: "newId \<notin> rt_id ` set (refresh_tokens d)"
  shows "tokens_consistent (snd (loginUser verifyPassword cfg now newId randomUUID input d))
       \<and> family_revoked f (snd (loginUser verifyPassword cfg now newId randomUUID input d))"
proof -
  obtain res d' where r: "loginUser verifyPassword cfg now newId randomUUID input d = (res, d')"
    by (cases "loginUser verifyPassword cfg now newId randomUUID input d")
  from dead fam have ne: "randomUUID \<noteq> f" by (auto simp: family_revoked_iff)
  from loginUser_rows[OF fresh r] have "tokens_consistent d' \<and> family_revoked f d'"
  proof
    assume "refresh_tokens d' = refresh_tokens d"
    then have "refresh_tokens d' = map (revoke_if (\<lambda>r. False)) (refresh_tokens d)"
      by (simp add: map_revoke_if_False)
    from revoked_rows_keep[OF this cons dead] show ?thesis .
  next
    assume "\<exists>uid. refresh_tokens d' =
                    refresh_tokens d @ [successor cfg now newId uid randomUUID]"
    then obtain uid where
      "refresh_tokens d' = map (revoke_if (\<lambda>r. False)) (refresh_tokens d)
                             @ [successor cfg now newId uid randomUUID]"
      by (auto simp: map_revoke_if_False)
    from appended_row_keeps[OF this ne cons dead] show ?thesis .
  qed
  with r show ?thesis by simp
qed

lemma refreshTokens_keeps_revoked:
  assumes cons: "tokens_consistent d" and dead: "family_revoked f d"
      and fresh: "newId \<notin> rt_id ` set (refresh_tokens d)"
  shows "tokens_consistent (snd (refreshTokens cfg now newId raw d))
       \<and> family_revoked f (snd (refreshTokens cfg now newId raw d))"
proof -
  obtain res d' where r: "refreshTokens cfg now newId raw d = (res, d')"
    by (cases "refreshTokens cfg now newId raw d")
  from refreshTokens_rows[OF fresh r] have "tokens_consistent d' \<and> family_revoked f d'"
  proof
    assume "\<exists>P. refresh_tokens d' = map (revoke_if P) (refresh_tokens d)"
    then obtain P where "refresh_tokens d' = map (revoke_if P) (refresh_tokens d)" ..
    from revoked_rows_keep[OF this cons dead] show ?thesis .
  next
    assume "\<exists>c st. st \<in> set (refresh_tokens d) \<and> \<not> rt_revoked st
                 \<and> rt_tokenHash st = Sha256 (RefreshJwt c)
                 \<and> refresh_tokens d' =
                     map (revoke_if (\<lambda>r. rt_id r = rt_id st)) (refresh_tokens d)
                     @ [successor cfg now newId (rc_sub c) (rc_family c)]"
    then obtain c st where st: "st \<in> set (refresh_tokens d)" "\<not> rt_revoked st"
        "rt_tokenHash st = Sha256 (RefreshJwt c)"
      and rows: "refresh_tokens d' =
                     map (revoke_if (\<lambda>r. rt_id r = rt_id st)) (refresh_tokens d)
                     @ [successor cfg now newId (rc_sub c) (rc_family c)]"
      by blast
    have "rt_family st = rc_family c"
      using cons st(1,3) by (auto simp: tokens_consistent_iff row_consistent_def)
    with st(1,2) dead have "rc_family c \<noteq> f" by (auto simp: family_revoked_iff)
    from appended_row_keeps[OF rows this cons dead] show ?thesis .
  qed
  with r show ?thesis by simp
qed

lemma logoutUser_keeps_revoked:
  assumes cons: "tokens_consistent d" and dead: "family_revoked f d"
  shows "tokens_consistent (snd (logoutUser rawOpt userId d))
       \<and> family_revoked f (snd (logoutUser rawOpt userId d))"
proof -
  obtain u d' where r: "logoutUser rawOpt userId d = (u, d')"
    by (cases "logoutUser rawOpt userId d")
  from logoutUser_rows[OF r] obtain P where
    "refresh_tokens d' = map (revoke_if P) (refresh_tokens d)" ..
  from revoked_rows_keep[OF this cons dead] r show ?thesis by simp
qed

lemma resetPassword_keeps_revoked:
  assumes cons: "tokens_consistent d" and dead: "family_revoked f d"
  shows "tokens_consistent (snd (resetPassword hashPassword now raw newPassword d))
       \<and> family_revoked f (snd (resetPassword hashPassword now raw newPassword d))"
proof -
  obtain res d' where r: "resetPassword hashPassword now raw newPassword d = (res, d')"
    by (cases "resetPassword hashPassword now raw newPassword d")
  from resetPassword_rows[OF r] obtain P where
    "refresh_tokens d' = map (revoke_if P) (refresh_tokens d)" ..
  from revoked_rows_keep[OF this cons dead] r show ?thesis by simp
qed

subsection \<open>Recovery endpoints\<close>

lemma resendVerification_eligible:
  assumes uq: "distinct (map user_email (users d))"
      and u: "u \<in> set (users d)" "user_email u = email" "user_status u = UNVERIFIED"
  shows "resendVerification now newId rnd email d =
           (Some rnd,
            d\<lparr>verification_tokens :=
                filter (\<lambda>t. ot_userId t \<noteq> user_id u) (verification_tokens d)
                @ [verification_row now newId rnd (user_id u)]\<rparr>)"
  using find_unique_key[OF uq u(1,2)] u(3)
  by (simp add: resendVerification_def generateOpaqueToken_def verification_row_def Let_def)

lemma resendVerification_ineligible:
  assumes no: "\<not> (\<exists>u\<in>set (users d). user_email u = email \<and> user_status u = UNVERIFIED)"
  shows "resendVerification now newId rnd email d = (None, d)"
proof (cases "find (\<lambda>u. user_email u = email) (users d)")
  case None
  then show ?thesis by (simp add: resendVerification_def)
next
  case (Some u)
  then have "u \<in> set (users d)" "user_email u = email" by (auto simp: find_Some_iff)
  with no have "user_status u \<noteq> UNVERIFIED" by auto
  with Some show ?thesis by (simp add: resendVerification_def)
qed

lemma requestPasswordReset_eligible:
  assumes uq: "distinct (map user_email (users d))"
      and u: "u \<in> set (users d)" "user_email u = email" "user_deletedAt u = None"
  shows "requestPasswordReset now newId rnd email d =
           (Some rnd,
            d\<lparr>password_reset_tokens :=
                filter (\<lambda>t. ot_userId t \<noteq> user_id u) (password_reset_tokens d)
                @ [reset_row now newId rnd (user_id u)]\<rparr>)"
  using find_unique_key[OF uq u(1,2)] u(3)
  by (simp add: requestPasswordReset_def generateOpaqueToken_def reset_row_def Let_def)

lemma requestPasswordReset_ineligible:
  assumes no: "\<not> (\<exists>u\<in>set (users d). user_email u = email \<and> user_deletedAt u = None)"
  shows "requestPasswordReset now newId rnd email d = (None, d)"
proof (cases "find (\<lambda>u. user_email u = email) (users d)")
  case None
  then show ?thesis by (simp add: requestPasswordReset_def)
next
  case (Some u)
  then have "u \<in> set (users d)" "user_email u = email" by (auto simp: find_Some_iff)
  with no have "user_deletedAt u \<noteq> None" by auto
  with Some show ?thesis by (auto simp add: requestPasswordReset_def)
qed

lemma handlers_production:
  assumes "NODE_ENV cfg = Some ''production''"
  shows "fst (fst (resendVerificationHandler cfg now newId rnd email d)) =
           \<lparr>res_status = 200,
            res_payload = [(''message'', JString
              ''If an unverified account exists, a verification email has been sent.'')]\<rparr>"
    and "ENABLE_PASSWORD_RESET cfg \<Longrightarrow>
         fst (fst (forgotPasswordHandler cfg now newId rnd url email d)) =
           \<lparr>res_status = 200,
            res_payload = [(''message'', JString
              ''If an account exists, a password reset link has been sent.'')]\<rparr>"
  using assms
  by (simp_all add: resendVerificationHandler_def forgotPasswordHandler_def Let_def
        split: prod.splits)

lemma handlers_non_production:
  assumes "NODE_ENV cfg \<noteq> Some ''production''"
  shows "fst (fst (resendVerificationHandler cfg now newId rnd email d)) =
           \<lparr>res_status = 200,
            res_payload = (''message'', JString
              ''If an unverified account exists, a verification email has been sent.'')
              # (case fst (resendVerification now newId rnd email d) of
                   None \<Rightarrow> []
                 | Some s \<Rightarrow> if s = [] then [] else [(''verificationToken'', JString s)])\<rparr>"
    and "ENABLE_PASSWORD_RESET cfg \<Longrightarrow>
         fst (fst (forgotPasswordHandler cfg now newId rnd url email d)) =
           \<lparr>res_status = 200,
            res_payload = (''message'', JString
              ''If an account exists, a password reset link has been sent.'')
              # (case fst (requestPasswordReset now newId rnd email d) of
                   None \<Rightarrow> []
                 | Some s \<Rightarrow> if s = [] then [] else [(''resetToken'', JString s)])\<rparr>"
  using assms
  by (auto simp add: resendVerificationHandler_def forgotPasswordHandler_def Let_def
        split: prod.splits option.splits)

lemma handlers_store:
  "snd (resendVerificationHandler cfg now newId rnd email d) =
     snd (resendVerification now newId rnd email d)"
  "ENABLE_PASSWORD_RESET cfg \<Longrightarrow>
   snd (forgotPasswordHandler cfg now newId rnd url email d) =
     snd (requestPasswordReset now newId rnd email d)"
  "\<not> ENABLE_PASSWORD_RESET cfg \<Longrightarrow>
   forgotPasswordHandler cfg now newId rnd url email d =
     ((\<lparr>res_status = 400,
        res_payload =
          [(''type'', JString ''https://api.taskmanagement.com/errors/feature-disabled''),
           (''title'', JString ''Feature Disabled''),
           (''status'', JNumber 400),
           (''detail'', JString ''Password reset is currently disabled''),
           (''instance'', JString url)]\<rparr>, None), d)"
  by (simp_all add: resendVerificationHandler_def forgotPasswordHandler_def Let_def
        split: prod.splits)

lemma routes_cut:
  "resendVerificationRoute lib cfg now newId rnd req d =
     (case resendVerificationSchema lib (req_body req) of
        Inl error \<Rightarrow> ((zodErrorToProblem error (req_url req), None), d)
      | Inr email \<Rightarrow> resendVerificationHandler cfg now newId rnd email d)"
  "forgotPasswordRoute lib cfg now newId rnd req d =
     (case forgotPasswordSchema lib (req_body req) of
        Inl error \<Rightarrow> ((zodErrorToProblem error (req_url req), None), d)
      | Inr email \<Rightarrow> forgotPasswordHandler cfg now newId rnd (req_url req) email d)"
  by (simp_all add: resendVerificationRoute_def forgotPasswordRoute_def validateBody_def
        split: sum.splits)

lemma ex_requests:
  "resendVerificationSchema ex_lib (req_body (ex_request url ''BOB@EXAMPLE.COM'')) =
     Inr ''bob@example.com''"
  "resendVerificationSchema ex_lib (req_body (ex_request url ''nobody@example.com'')) =
     Inr ''nobody@example.com''"
  "resendVerificationSchema ex_lib (req_body (ex_request url ''not an address'')) =
     Inl [([''email''], ''Invalid email'')]"
  "forgotPasswordSchema ex_lib (req_body (ex_request url ''BOB@EXAMPLE.COM'')) =
     Inr ''bob@example.com''"
  "forgotPasswordSchema ex_lib (req_body (ex_request url ''Alice@Example.com'')) =
     Inr ''alice@example.com''"
  "forgotPasswordSchema ex_lib (req_body (ex_request url ''nobody@example.com'')) =
     Inr ''nobody@example.com''"
  "forgotPasswordSchema ex_lib (req_body (ex_request url ''erin@example.com'')) =
     Inr ''erin@example.com''"
  by (simp_all add: resendVerificationSchema_def forgotPasswordSchema_def ex_email_def
        ex_toLowerCase_def ex_lib_def ex_request_def)

subsection \<open>The example stores\<close>

lemma ex_login:
  "loginUser ex_verifyPassword ex_cfg 0 10 100
      \<lparr>li_email = ''alice@example.com'', li_password = ''pw-alice''\<rparr> ex_db0 =
   (Inr (\<lparr>accessToken = AccessJwt \<lparr>ap_sub = 1, ap_email = ''alice@example.com'',
                                   ap_status = ACTIVE, ap_iat = 0, ap_exp = 900\<rparr>,
           refreshToken = RefreshJwt (ex_claims 1 10 100)\<rparr>,
         \<lparr>up_id = 1, up_email = ''alice@example.com'', up_name = ''Alice'',
          up_status = ACTIVE, up_createdAt = 0\<rparr>), ex_db1)"
  by (simp add: ex_defs loginUser_def createTokenPair_def signAccessToken_def
        signRefreshToken_def hashToken_def Let_def)

section \<open>Refresh-token reuse detection\<close>

text \<open>
  Claim C1, as amended. Take a refresh token that is live: its signature verifies, its row
  is stored for the claimed user, unrevoked and unexpired, and the user is not
  soft-deleted. Then the first \<open>refreshTokens\<close> call succeeds. A second call with the
  same raw token answers by the signature check, which comes before any lookup: once the
  signature has expired the call fails with \<open>INVALID_TOKEN\<close> and changes nothing;
  while it still verifies the call fails with \<open>TOKEN_REUSE\<close> and leaves a consistent
  store with the whole family revoked, in which a call presenting the token returned by
  the first call fails with \<open>TOKEN_REUSE\<close> too. In every consistent store in which
  the family is revoked, a call presenting any token of the family whose signature
  verifies fails with \<open>TOKEN_REUSE\<close>; and a refresh, a login (which draws a family
  that is not in the table), a logout and a password reset, each run to its end, leave the
  store consistent and the family revoked. The store is consistent at the start and the id
  of a new row is not the id of a stored row.
\<close>

theorem refresh_reuse_detection:
  assumes cons: "tokens_consistent d"
      and fresh: "newId \<notin> rt_id ` set (refresh_tokens d)"
      and v1: "verifyRefreshToken t1 raw = Some c"
      and f: "find (\<lambda>r. rt_tokenHash r = hashToken raw \<and> rt_userId r = rc_sub c)
                (refresh_tokens d) = Some st"
      and live: "\<not> rt_revoked st" "\<not> rt_expiresAt st < t1"
      and u: "find (\<lambda>u. user_id u = rc_sub c) (users d) = Some usr" "user_deletedAt usr = None"
  shows "\<exists>tokens d1.
           refreshTokens cfg t1 newId raw d = (Inr tokens, d1)
         \<and> (\<forall>cfg2 t2 n2.
              (verifyRefreshToken t2 raw = None \<longrightarrow>
                 refreshTokens cfg2 t2 n2 raw d1 =
                   (Inl (AuthError ''INVALID_TOKEN'' ''Invalid refresh token'' 401), d1))
            \<and> (verifyRefreshToken t2 raw \<noteq> None \<longrightarrow>
                 (\<exists>d2. refreshTokens cfg2 t2 n2 raw d1 =
                          (Inl (AuthError ''TOKEN_REUSE'' ''Refresh token has been revoked'' 401), d2)
                      \<and> tokens_consistent d2 \<and> family_revoked (rc_family c) d2
                      \<and> (\<forall>cfg3 t3 n3.
                            verifyRefreshToken t3 (refreshToken tokens) \<noteq> None \<longrightarrow>
                            fst (refreshTokens cfg3 t3 n3 (refreshToken tokens) d2) =
                              Inl (AuthError ''TOKEN_REUSE'' ''Refresh token has been revoked'' 401)))))
         \<and> (\<forall>d3. tokens_consistent d3 \<and> family_revoked (rc_family c) d3 \<longrightarrow>
              (\<forall>cfg3 t3 n3 raw3 c3.
                  verifyRefreshToken t3 raw3 = Some c3 \<and> rc_family c3 = rc_family c \<longrightarrow>
                  fst (refreshTokens cfg3 t3 n3 raw3 d3) =
                    Inl (AuthError ''TOKEN_REUSE'' ''Refresh token has been revoked'' 401))
            \<and> (\<forall>cfg3 t3 n3 raw3.
                  n3 \<notin> rt_id ` set (refresh_tokens d3) \<longrightarrow>
                  tokens_consistent (snd (refreshTokens cfg3 t3 n3 raw3 d3))
                  \<and> family_revoked (rc_family c) (snd (refreshTokens cfg3 t3 n3 raw3 d3)))
            \<and> (\<forall>verifyPassword cfg3 t3 n3 randomUUID input.
                  n3 \<notin> rt_id ` set (refresh_tokens d3)
                  \<and> randomUUID \<notin> rt_family ` set (refresh_tokens d3) \<longrightarrow>
                  tokens_consistent
                    (snd (loginUser verifyPassword cfg3 t3 n3 randomUUID input d3))
                  \<and> family_revoked (rc_family c)
                      (snd (loginUser verifyPassword cfg3 t3 n3 randomUUID input d3)))
            \<and> (\<forall>rawOpt userId.
                  tokens_consistent (snd (logoutUser rawOpt userId d3))
                  \<and> family_revoked (rc_family c) (snd (logoutUser rawOpt userId d3)))
            \<and> (\<forall>hashPassword t3 raw3 newPassword.
                  tokens_consistent (snd (resetPassword hashPassword t3 raw3 newPassword d3))
                  \<and> family_revoked (rc_family c)
                      (snd (resetPassword hashPassword t3 raw3 newPassword d3))))"
proof -
  let ?f = "rc_family c"
  let ?g = "revoke_if (\<lambda>r. rt_id r = rt_id st)"
  let ?succ = "successor cfg t1 newId (rc_sub c) ?f"
  let ?E = "Inl (AuthError ''TOKEN_REUSE'' ''Refresh token has been revoked'' 401) :: error + AuthTokens"
  define tokens where "tokens =
     \<lparr>accessToken = signAccessToken cfg t1 (user_id usr) (user_email usr) (user_status usr),
      refreshToken = signRefreshToken cfg t1 (rc_sub c) newId ?f\<rparr>"
  define d1 where "d1 = (revokeWhere (\<lambda>r. rt_id r = rt_id st) d)
              \<lparr>refresh_tokens := map ?g (refresh_tokens d) @ [?succ]\<rparr>"
  have first: "refreshTokens cfg t1 newId raw d = (Inr tokens, d1)"
    using refreshTokens_success[OF fresh v1 f live u, of cfg]
    by (simp add: tokens_def d1_def revoke_if_def[abs_def])
  have rows1: "refresh_tokens d1 = map ?g (refresh_tokens d) @ [?succ]"
    by (simp add: d1_def)
  have cons1: "tokens_consistent d1"
    using cons by (auto simp: tokens_consistent_iff rows1)
  have found1: "find (\<lambda>r. rt_tokenHash r = hashToken raw \<and> rt_userId r = rc_sub c)
                  (refresh_tokens d1) = Some (?g st)"
  proof -
    have "find (\<lambda>r. rt_tokenHash r = hashToken raw \<and> rt_userId r = rc_sub c)
            (map ?g (refresh_tokens d)) = map_option ?g (Some st)"
      using find_map_preserve[of "\<lambda>r. rt_tokenHash r = hashToken raw \<and> rt_userId r = rc_sub c" ?g
              "refresh_tokens d"] f by simp
    then show ?thesis by (simp add: rows1 find_append_Some)
  qed
  have expired: "refreshTokens cfg2 t2 n2 raw d1 =
                   (Inl (AuthError ''INVALID_TOKEN'' ''Invalid refresh token'' 401), d1)"
    if "verifyRefreshToken t2 raw = None" for cfg2 t2 n2
    using that by (simp add: refreshTokens_def)
  define d2 where "d2 = revokeWhere (\<lambda>r. rt_family r = ?f) d1"
  have second: "refreshTokens cfg2 t2 n2 raw d1 = (?E, d2)"
    if "verifyRefreshToken t2 raw \<noteq> None" for cfg2 t2 n2
  proof -
    have "verifyRefreshToken t2 raw = Some c" using verify_same_claims[OF v1 that] .
    then show ?thesis using found1 by (simp add: refreshTokens_def d2_def)
  qed
  have rows2: "refresh_tokens d2 = map (revoke_if (\<lambda>r. rt_family r = ?f)) (refresh_tokens d1)"
    by (simp add: d2_def revokeWhere_rows del: refresh_tokens_revokeWhere)
  have cons2: "tokens_consistent d2"
    using cons1 by (auto simp: tokens_consistent_iff rows2)
  have dead2: "family_revoked ?f d2"
    by (force simp: family_revoked_iff rows2 rows1 image_iff)
  have later: "fst (refreshTokens cfg3 t3 n3 raw3 d3) = ?E"
    if "tokens_consistent d3" "family_revoked ?f d3"
       "verifyRefreshToken t3 raw3 = Some c3" "rc_family c3 = ?f"
    for d3 cfg3 t3 n3 raw3 c3
  proof -
    from that(2) have "\<forall>r\<in>set (refresh_tokens d3). rt_family r = rc_family c3 \<longrightarrow> rt_revoked r"
      using that(4) by (simp add: family_revoked_iff)
    from refreshTokens_revoked_family[OF that(1) this that(3)] show ?thesis by simp
  qed
  have third: "fst (refreshTokens cfg3 t3 n3 (refreshToken tokens) d2) = ?E"
    if "verifyRefreshToken t3 (refreshToken tokens) \<noteq> None" for cfg3 t3 n3
  proof -
    from that obtain c3 where c3: "verifyRefreshToken t3 (refreshToken tokens) = Some c3"
      by auto
    then have "rc_family c3 = ?f"
      using verify_signed_family by (simp add: tokens_def)
    from later[OF cons2 dead2 c3 this] show ?thesis .
  qed
  have twice: "\<forall>cfg2 t2 n2.
              (verifyRefreshToken t2 raw = None \<longrightarrow>
                 refreshTokens cfg2 t2 n2 raw d1 =
                   (Inl (AuthError ''INVALID_TOKEN'' ''Invalid refresh token'' 401), d1))
            \<and> (verifyRefreshToken t2 raw \<noteq> None \<longrightarrow>
                 (\<exists>d2. refreshTokens cfg2 t2 n2 raw d1 = (?E, d2)
                      \<and> tokens_consistent d2 \<and> family_revoked ?f d2
                      \<and> (\<forall>cfg3 t3 n3.
                            verifyRefreshToken t3 (refreshToken tokens) \<noteq> None \<longrightarrow>
                            fst (refreshTokens cfg3 t3 n3 (refreshToken tokens) d2) = ?E)))"
    using expired second cons2 dead2 third by blast
  have kept: "\<forall>d3. tokens_consistent d3 \<and> family_revoked ?f d3 \<longrightarrow>
              (\<forall>cfg3 t3 n3 raw3 c3.
                  verifyRefreshToken t3 raw3 = Some c3 \<and> rc_family c3 = ?f \<longrightarrow>
                  fst (refreshTokens cfg3 t3 n3 raw3 d3) = ?E)
            \<and> (\<forall>cfg3 t3 n3 raw3.
                  n3 \<notin> rt_id ` set (refresh_tokens d3) \<longrightarrow>
                  tokens_consistent (snd (refreshTokens cfg3 t3 n3 raw3 d3))
                  \<and> family_revoked ?f (snd (refreshTokens cfg3 t3 n3 raw3 d3)))
            \<and> (\<forall>verifyPassword cfg3 t3 n3 randomUUID input.
                  n3 \<notin> rt_id ` set (refresh_tokens d3)
                  \<and> randomUUID \<notin> rt_family ` set (refresh_tokens d3) \<longrightarrow>
                  tokens_consistent
                    (snd (loginUser verifyPassword cfg3 t3 n3 randomUUID input d3))
                  \<and> family_revoked ?f
                      (snd (loginUser verifyPassword cfg3 t3 n3 randomUUID input d3)))
            \<and> (\<forall>rawOpt userId.
                  tokens_consistent (snd (logoutUser rawOpt userId d3))
                  \<and> family_revoked ?f (snd (logoutUser rawOpt userId d3)))
            \<and> (\<forall>hashPassword t3 raw3 newPassword.
                  tokens_consistent (snd (resetPassword hashPassword t3 raw3 newPassword d3))
                  \<and> family_revoked ?f
                      (snd (resetPassword hashPassword t3 raw3 newPassword d3)))"
  proof (intro allI impI)
    fix d3 assume K: "tokens_consistent d3 \<and> family_revoked ?f d3"
    then have c3: "tokens_consistent d3" and r3: "family_revoked ?f d3" by simp_all
    show "(\<forall>cfg3 t3 n3 raw3 c3.
                  verifyRefreshToken t3 raw3 = Some c3 \<and> rc_family c3 = ?f \<longrightarrow>
                  fst (refreshTokens cfg3 t3 n3 raw3 d3) = ?E)
            \<and> (\<forall>cfg3 t3 n3 raw3.
                  n3 \<notin> rt_id ` set (refresh_tokens d3) \<longrightarrow>
                  tokens_consistent (snd (refreshTokens cfg3 t3 n3 raw3 d3))
                  \<and> family_revoked ?f (snd (refreshTokens cfg3 t3 n3 raw3 d3)))
            \<and> (\<forall>verifyPassword cfg3 t3 n3 randomUUID input.
                  n3 \<notin> rt_id ` set (refresh_tokens d3)
                  \<and> randomUUID \<notin> rt_family ` set (refresh_tokens d3) \<longrightarrow>
                  tokens_consistent
                    (snd (loginUser verifyPassword cfg3 t3 n3 randomUUID input d3))
                  \<and> family_revoked ?f
                      (snd (loginUser verifyPassword cfg3 t3 n3 randomUUID input d3)))
            \<and> (\<forall>rawOpt userId.
                  tokens_consistent (snd (logoutUser rawOpt userId d3))
                  \<and> family_revoked ?f (snd (logoutUser rawOpt userId d3)))
            \<and> (\<forall>hashPassword t3 raw3 newPassword.
                  tokens_consistent (snd (resetPassword hashPassword t3 raw3 newPassword d3))
                  \<and> family_revoked ?f
                      (snd (resetPassword hashPassword t3 raw3 newPassword d3)))"
      using later[OF c3 r3] refreshTokens_keeps_revoked[OF c3 r3]
            loginUser_keeps_revoked[OF c3 r3] logoutUser_keeps_revoked[OF c3 r3]
            resetPassword_keeps_revoked[OF c3 r3]
      by blast
  qed
  from first twice kept show ?thesis by (intro exI conjI)
qed

theorem refresh_reuse_detection_witness:
  "tokens_consistent ex_db1
   \<and> 11 \<notin> rt_id ` set (refresh_tokens ex_db1)
   \<and> verifyRefreshToken 1000 (RefreshJwt (ex_claims 1 10 100)) = Some (ex_claims 1 10 100)
   \<and> find (\<lambda>r. rt_tokenHash r = hashToken (RefreshJwt (ex_claims 1 10 100))
                \<and> rt_userId r = rc_sub (ex_claims 1 10 100))
        (refresh_tokens ex_db1) = Some (ex_row 1 10 100 False)
   \<and> find (\<lambda>u. user_id u = rc_sub (ex_claims 1 10 100)) (users ex_db1) = Some alice
   \<and> (\<exists>tokens d1.
         refreshTokens ex_cfg 1000 11 (RefreshJwt (ex_claims 1 10 100)) ex_db1 = (Inr tokens, d1)
       \<and> verifyRefreshToken 604800000 (RefreshJwt (ex_claims 1 10 100)) = None
       \<and> refreshTokens ex_cfg 604800000 12 (RefreshJwt (ex_claims 1 10 100)) d1 =
           (Inl (AuthError ''INVALID_TOKEN'' ''Invalid refresh token'' 401), d1)
       \<and> verifyRefreshToken 2000 (RefreshJwt (ex_claims 1 10 100)) \<noteq> None
       \<and> (\<exists>d2. refreshTokens ex_cfg 2000 12 (RefreshJwt (ex_claims 1 10 100)) d1 =
                  (Inl (AuthError ''TOKEN_REUSE'' ''Refresh token has been revoked'' 401), d2)
              \<and> tokens_consistent d2 \<and> family_revoked 100 d2
              \<and> verifyRefreshToken 3000 (refreshToken tokens) \<noteq> None
              \<and> fst (refreshTokens ex_cfg 3000 13 (refreshToken tokens) d2) =
                  Inl (AuthError ''TOKEN_REUSE'' ''Refresh token has been revoked'' 401)
              \<and> 14 \<notin> rt_id ` set (refresh_tokens d2)
              \<and> 101 \<notin> rt_family ` set (refresh_tokens d2)
              \<and> family_revoked 100
                  (snd (loginUser ex_verifyPassword ex_cfg 4000 14 101
                          \<lparr>li_email = ''alice@example.com'', li_password = ''pw-alice''\<rparr> d2))))"
proof -
  let ?raw = "RefreshJwt (ex_claims 1 10 100)"
  let ?E = "Inl (AuthError ''TOKEN_REUSE'' ''Refresh token has been revoked'' 401) :: error + AuthTokens"
  have h1: "tokens_consistent ex_db1" by (simp add: tokens_consistent_def row_consistent_def ex_defs)
  have h2: "11 \<notin> rt_id ` set (refresh_tokens ex_db1)" by (simp add: ex_defs)
  have h3: "verifyRefreshToken 1000 ?raw = Some (ex_claims 1 10 100)"
    by (simp add: verifyRefreshToken_def ex_defs)
  have h4: "find (\<lambda>r. rt_tokenHash r = hashToken ?raw \<and> rt_userId r = rc_sub (ex_claims 1 10 100))
        (refresh_tokens ex_db1) = Some (ex_row 1 10 100 False)"
    by (simp add: hashToken_def ex_defs)
  have h5: "\<not> rt_revoked (ex_row 1 10 100 False)" by (simp add: ex_defs)
  have h6: "\<not> rt_expiresAt (ex_row 1 10 100 False) < 1000" by (simp add: ex_defs)
  have h7: "find (\<lambda>u. user_id u = rc_sub (ex_claims 1 10 100)) (users ex_db1) = Some alice"
    by (simp add: ex_defs)
  have h8: "user_deletedAt alice = None" by (simp add: ex_defs)
  have fam: "rc_family (ex_claims 1 10 100) = 100" by (simp add: ex_defs)
  from refresh_reuse_detection[OF h1 h2 h3 h4 h5 h6 h7 h8, of ex_cfg]
  obtain tokens d1 where
    first: "refreshTokens ex_cfg 1000 11 ?raw ex_db1 = (Inr tokens, d1)"
    and twice0: "\<forall>cfg2 t2 n2.
              (verifyRefreshToken t2 ?raw = None \<longrightarrow>
                 refreshTokens cfg2 t2 n2 ?raw d1 =
                   (Inl (AuthError ''INVALID_TOKEN'' ''Invalid refresh token'' 401), d1))
            \<and> (verifyRefreshToken t2 ?raw \<noteq> None \<longrightarrow>
                 (\<exists>d2. refreshTokens cfg2 t2 n2 ?raw d1 = (?E, d2)
                      \<and> tokens_consistent d2 \<and> family_revoked (rc_family (ex_claims 1 10 100)) d2
                      \<and> (\<forall>cfg3 t3 n3.
                            verifyRefreshToken t3 (refreshToken tokens) \<noteq> None \<longrightarrow>
                            fst (refreshTokens cfg3 t3 n3 (refreshToken tokens) d2) = ?E)))"
    and kept0: "\<forall>d3. tokens_consistent d3 \<and> family_revoked (rc_family (ex_claims 1 10 100)) d3 \<longrightarrow>
              (\<forall>cfg3 t3 n3 raw3 c3.
                  verifyRefreshToken t3 raw3 = Some c3
                  \<and> rc_family c3 = rc_family (ex_claims 1 10 100) \<longrightarrow>
                  fst (refreshTokens cfg3 t3 n3 raw3 d3) = ?E)
            \<and> (\<forall>cfg3 t3 n3 raw3.
                  n3 \<notin> rt_id ` set (refresh_tokens d3) \<longrightarrow>
                  tokens_consistent (snd (refreshTokens cfg3 t3 n3 raw3 d3))
                  \<and> family_revoked (rc_family (ex_claims 1 10 100))
                      (snd (refreshTokens cfg3 t3 n3 raw3 d3)))
            \<and> (\<forall>verifyPassword cfg3 t3 n3 randomUUID input.
                  n3 \<notin> rt_id ` set (refresh_tokens d3)
                  \<and> randomUUID \<notin> rt_family ` set (refresh_tokens d3) \<longrightarrow>
                  tokens_consistent
                    (snd (loginUser verifyPassword cfg3 t3 n3 randomUUID input d3))
                  \<and> family_revoked (rc_family (ex_claims 1 10 100))
                      (snd (loginUser verifyPassword cfg3 t3 n3 randomUUID input d3)))
            \<and> (\<forall>rawOpt userId.
                  tokens_consistent (snd (logoutUser rawOpt userId d3))
                  \<and> family_revoked (rc_family (ex_claims 1 10 100))
                      (snd (logoutUser rawOpt userId d3)))
            \<and> (\<forall>hashPassword t3 raw3 newPassword.
                  tokens_consistent (snd (resetPassword hashPassword t3 raw3 newPassword d3))
                  \<and> family_revoked (rc_family (ex_claims 1 10 100))
                      (snd (resetPassword hashPassword t3 raw3 newPassword d3)))"
    by (elim exE conjE) (rule that, assumption+)
  note twice = twice0[rule_format, unfolded fam]
  have kept: "family_revoked 100
                (snd (loginUser verifyPassword cfg3 t3 n3 randomUUID input d3))"
    if "tokens_consistent d3" "family_revoked 100 d3"
       "n3 \<notin> rt_id ` set (refresh_tokens d3)"
       "randomUUID \<notin> rt_family ` set (refresh_tokens d3)"
    for d3 verifyPassword cfg3 t3 n3 randomUUID input
    using kept0[unfolded fam] that by blast
  have tok: "refreshToken tokens = signRefreshToken ex_cfg 1000 1 11 100"
    and d1: "refresh_tokens d1 = [ex_row 1 10 100 True, successor ex_cfg 1000 11 1 100]"
    using first refreshTokens_success[OF h2 h3 h4 h5 h6 h7 h8, of ex_cfg]
    by (auto simp: ex_defs)
  have vexp: "verifyRefreshToken 604800000 ?raw = None"
    by (simp add: verifyRefreshToken_def ex_defs)
  with twice[of 604800000 ex_cfg 12]
  have expired: "refreshTokens ex_cfg 604800000 12 ?raw d1 =
           (Inl (AuthError ''INVALID_TOKEN'' ''Invalid refresh token'' 401), d1)"
    by simp
  have v2: "verifyRefreshToken 2000 ?raw \<noteq> None"
    by (simp add: verifyRefreshToken_def ex_defs)
  with twice[of 2000 ex_cfg 12] obtain d2 where
    second: "refreshTokens ex_cfg 2000 12 ?raw d1 = (?E, d2)"
    and K2: "tokens_consistent d2" "family_revoked 100 d2"
    and third: "\<And>cfg3 t3 n3. verifyRefreshToken t3 (refreshToken tokens) \<noteq> None \<Longrightarrow>
                  fst (refreshTokens cfg3 t3 n3 (refreshToken tokens) d2) = ?E"
    by blast
  have v3: "verifyRefreshToken 3000 (refreshToken tokens) \<noteq> None"
    by (simp add: tok verifyRefreshToken_def signRefreshToken_def ex_defs)
  note t3 = third[OF v3, of ex_cfg 13]
  have d2: "refresh_tokens d2 = [ex_row 1 10 100 True,
                                 (successor ex_cfg 1000 11 1 100)\<lparr>rt_revoked := True\<rparr>]"
    using second
    by (auto simp: refreshTokens_def verifyRefreshToken_def hashToken_def revokeWhere_def
          d1 ex_defs successor_def split: if_splits option.splits)
  have ids: "14 \<notin> rt_id ` set (refresh_tokens d2)"
    and fams: "101 \<notin> rt_family ` set (refresh_tokens d2)"
    by (simp_all add: d2 ex_defs successor_def)
  from kept[OF K2 ids fams]
  have login: "family_revoked 100
                  (snd (loginUser ex_verifyPassword ex_cfg 4000 14 101
                          \<lparr>li_email = ''alice@example.com'', li_password = ''pw-alice''\<rparr> d2))" .
  have inner: "\<exists>d2. refreshTokens ex_cfg 2000 12 ?raw d1 = (?E, d2)
              \<and> tokens_consistent d2 \<and> family_revoked 100 d2
              \<and> verifyRefreshToken 3000 (refreshToken tokens) \<noteq> None
              \<and> fst (refreshTokens ex_cfg 3000 13 (refreshToken tokens) d2) = ?E
              \<and> 14 \<notin> rt_id ` set (refresh_tokens d2)
              \<and> 101 \<notin> rt_family ` set (refresh_tokens d2)
              \<and> family_revoked 100
                  (snd (loginUser ex_verifyPassword ex_cfg 4000 14 101
                          \<lparr>li_email = ''alice@example.com'', li_password = ''pw-alice''\<rparr> d2))"
    by (rule exI[of _ d2]) (intro conjI second K2 v3 t3 ids fams login)
  show ?thesis
    apply (intro conjI h1 h2 h3 h4 h7)
    apply (rule exI[of _ tokens], rule exI[of _ d1])
    apply (intro conjI first vexp expired v2 inner)
    done
qed

text \<open>
  The claim as stated has the second call, and every later call, fail with
  \<open>TOKEN_REUSE\<close>. Alice's token 10 is rotated at time 1000. Presented again at time
  604800000, when its signature has expired, it is rejected with \<open>INVALID_TOKEN\<close>
  before any lookup: the family is not revoked, the successor stays live, and a third
  call with the successor succeeds.
\<close>

theorem expired_replay_counterexample:
  "refreshTokens ex_cfg 1000 11 (RefreshJwt (ex_claims 1 10 100)) ex_db1 =
     (Inr \<lparr>accessToken = AccessJwt \<lparr>ap_sub = 1, ap_email = ''alice@example.com'',
                                    ap_status = ACTIVE, ap_iat = 1, ap_exp = 901\<rparr>,
           refreshToken = RefreshJwt \<lparr>rc_sub = 1, rc_tokenId = 11, rc_family = 100,
                                      rc_iat = 1, rc_exp = 604801\<rparr>\<rparr>,
      ex_db1\<lparr>refresh_tokens := [ex_row 1 10 100 True, successor ex_cfg 1000 11 1 100]\<rparr>)
   \<and> refreshTokens ex_cfg 604800000 12 (RefreshJwt (ex_claims 1 10 100))
       (ex_db1\<lparr>refresh_tokens := [ex_row 1 10 100 True, successor ex_cfg 1000 11 1 100]\<rparr>) =
     (Inl (AuthError ''INVALID_TOKEN'' ''Invalid refresh token'' 401),
      ex_db1\<lparr>refresh_tokens := [ex_row 1 10 100 True, successor ex_cfg 1000 11 1 100]\<rparr>)
   \<and> live_tokens 100
       (ex_db1\<lparr>refresh_tokens := [ex_row 1 10 100 True, successor ex_cfg 1000 11 1 100]\<rparr>) =
     [successor ex_cfg 1000 11 1 100]
   \<and> fst (refreshTokens ex_cfg 604800000 12
            (RefreshJwt \<lparr>rc_sub = 1, rc_tokenId = 11, rc_family = 100,
                         rc_iat = 1, rc_exp = 604801\<rparr>)
            (ex_db1\<lparr>refresh_tokens :=
                      [ex_row 1 10 100 True, successor ex_cfg 1000 11 1 100]\<rparr>)) =
     Inr \<lparr>accessToken = AccessJwt \<lparr>ap_sub = 1, ap_email = ''alice@example.com'',
                                   ap_status = ACTIVE, ap_iat = 604800, ap_exp = 605700\<rparr>,
          refreshToken = RefreshJwt \<lparr>rc_sub = 1, rc_tokenId = 12, rc_family = 100,
                                     rc_iat = 604800, rc_exp = 1209600\<rparr>\<rparr>"
  by (simp add: refreshTokens_def verifyRefreshToken_def hashToken_def revokeWhere_def
        createTokenPair_def signAccessToken_def signRefreshToken_def successor_def
        live_tokens_def Let_def ex_defs)

section \<open>Atomicity of the rotation\<close>

text \<open>
  Claim C2: the rotation is one atomic unit, so a refresh that fails leaves the stored
  refresh tokens unchanged, and the presented token is never left revoked without a
  successor. The code does not keep this. Erin's account is soft-deleted and her token 22
  is the one live token of family 300. \<open>refreshTokens\<close> revokes the presented row,
  then reads the user, and throws \<open>USER_NOT_FOUND\<close>: the call fails, token 22 is
  left revoked, and family 300 has no live token. The writes are not wrapped in
  \<open>prisma.$transaction\<close>, as those of \<open>verifyEmail\<close> and \<open>resetPassword\<close>
  are.
\<close>

theorem refresh_deleted_user_revokes:
  "find (\<lambda>u. user_id u = 5) (users ex_db2) = Some erin
   \<and> user_deletedAt erin = Some 60
   \<and> live_tokens 300 ex_db2 = [ex_row 5 22 300 False]
   \<and> refreshTokens ex_cfg 1000 23 (RefreshJwt (ex_claims 5 22 300)) ex_db2 =
       (Inl (AuthError ''USER_NOT_FOUND'' ''User not found'' 401),
        ex_db2\<lparr>refresh_tokens :=
                  [ex_row 1 20 200 True, ex_row 1 21 200 False, ex_row 5 22 300 True]\<rparr>)
   \<and> live_tokens 300
       (ex_db2\<lparr>refresh_tokens :=
                 [ex_row 1 20 200 True, ex_row 1 21 200 False, ex_row 5 22 300 True]\<rparr>) = []"
  by (simp add: refreshTokens_def verifyRefreshToken_def hashToken_def revokeWhere_def
        live_tokens_def ex_defs)

section \<open>At most one live token per family\<close>

text \<open>
  Claim C3: in every reachable state every family has at most one unrevoked refresh
  token. The code does not keep this when two requests overlap. Two handlers are given
  Alice's live token 10 of family 100. Each verifies it and reads its row, unrevoked,
  before the other has written. The first then revokes row 10 and creates the successor
  11; the second, holding the row it read, passes the check on \<open>revoked\<close>, revokes
  row 10 once more (the update is by id alone, not guarded by \<open>revoked: false\<close>) and
  creates the successor 12. Both calls succeed, and family 100 has two live tokens. The
  read, the revocation and the creation are not wrapped in \<open>prisma.$transaction\<close>.
\<close>

theorem two_overlapping_refreshes:
  "refreshTokens_read 1000 (RefreshJwt (ex_claims 1 10 100)) ex_db1 =
     Inr (ex_claims 1 10 100, Some (ex_row 1 10 100 False))
   \<and> refreshTokens_rest ex_cfg 1000 11 (ex_claims 1 10 100) (Some (ex_row 1 10 100 False))
       ex_db1 =
     (Inr \<lparr>accessToken = AccessJwt \<lparr>ap_sub = 1, ap_email = ''alice@example.com'',
                                    ap_status = ACTIVE, ap_iat = 1, ap_exp = 901\<rparr>,
           refreshToken = RefreshJwt \<lparr>rc_sub = 1, rc_tokenId = 11, rc_family = 100,
                                      rc_iat = 1, rc_exp = 604801\<rparr>\<rparr>,
      ex_db1\<lparr>refresh_tokens := [ex_row 1 10 100 True, successor ex_cfg 1000 11 1 100]\<rparr>)
   \<and> refreshTokens_rest ex_cfg 2000 12 (ex_claims 1 10 100) (Some (ex_row 1 10 100 False))
       (ex_db1\<lparr>refresh_tokens := [ex_row 1 10 100 True, successor ex_cfg 1000 11 1 100]\<rparr>) =
     (Inr \<lparr>accessToken = AccessJwt \<lparr>ap_sub = 1, ap_email = ''alice@example.com'',
                                    ap_status = ACTIVE, ap_iat = 2, ap_exp = 902\<rparr>,
           refreshToken = RefreshJwt \<lparr>rc_sub = 1, rc_tokenId = 12, rc_family = 100,
                                      rc_iat = 2, rc_exp = 604802\<rparr>\<rparr>,
      ex_db1\<lparr>refresh_tokens := [ex_row 1 10 100 True, successor ex_cfg 1000 11 1 100,
                                successor ex_cfg 2000 12 1 100]\<rparr>)
   \<and> live_tokens 100
       (ex_db1\<lparr>refresh_tokens := [ex_row 1 10 100 True, successor ex_cfg 1000 11 1 100,
                                 successor ex_cfg 2000 12 1 100]\<rparr>) =
     [successor ex_cfg 1000 11 1 100, successor ex_cfg 2000 12 1 100]"
  by (simp add: refreshTokens_read_def refreshTokens_rest_def verifyRefreshToken_def
        hashToken_def revokeWhere_def createTokenPair_def signAccessToken_def
        signRefreshToken_def successor_def live_tokens_def Let_def ex_defs)

section \<open>Totality of the task state machine\<close>

text \<open>
  Claim C4. Let a task be stored and visible to reads (not soft-deleted) with status
  \<open>from_st\<close>, and let the caller be a member of its group. For every status
  \<open>to_st\<close>: if the pair is not in the transition table, \<open>updateTaskStatus\<close> fails
  with \<open>INVALID_TRANSITION\<close> and the store is unchanged; if it is in the table, the
  call succeeds, returns the task with status \<open>to_st\<close>, and that is the stored task
  afterwards. Task ids are the primary key of the table.
\<close>

theorem updateTaskStatus_totality:
  assumes pk: "distinct (map task_id (tasks d))"
      and vis: "find (\<lambda>x. task_id x = taskId \<and> task_deletedAt x = None) (tasks d) = Some t"
      and st: "task_status t = from_st"
      and mem: "findMembership userId (task_groupId t) d \<noteq> None"
  shows "((from_st, to_st) \<notin> set spec_transition_table \<longrightarrow>
            updateTaskStatus now taskId (status_name to_st) userId d =
              (Inl (TaskError ''INVALID_TRANSITION''
                      (''Cannot transition from '' @ status_name from_st @ '' to ''
                         @ status_name to_st) 400), d))
       \<and> ((from_st, to_st) \<in> set spec_transition_table \<longrightarrow>
            (\<exists>d'. updateTaskStatus now taskId (status_name to_st) userId d =
                    (Inr (t\<lparr>task_status := to_st, task_updatedAt := now\<rparr>), d')
                 \<and> find (\<lambda>x. task_id x = taskId \<and> task_deletedAt x = None) (tasks d') =
                     Some (t\<lparr>task_status := to_st, task_updatedAt := now\<rparr>)))"
proof -
  have g: "getTaskById taskId userId d = Inr t"
    using getTaskById_visible[OF vis mem] .
  have u: "task_update now taskId (\<lambda>x. x\<lparr>task_status := to_st\<rparr>) d =
           (Inr (t\<lparr>task_status := to_st, task_updatedAt := now\<rparr>),
            d\<lparr>tasks := map (\<lambda>x. if task_id x = taskId then x\<lparr>task_status := to_st, task_updatedAt := now\<rparr> else x) (tasks d)\<rparr>)"
    using task_update_visible(1)[OF pk vis, of "\<lambda>x. x\<lparr>task_status := to_st\<rparr>" now] by simp
  have v: "find (\<lambda>x. task_id x = taskId \<and> task_deletedAt x = None)
           (map (\<lambda>x. if task_id x = taskId then x\<lparr>task_status := to_st, task_updatedAt := now\<rparr> else x) (tasks d))
         = Some (t\<lparr>task_status := to_st, task_updatedAt := now\<rparr>)"
    using task_update_visible(2)[OF pk vis, of "\<lambda>x. x\<lparr>task_status := to_st\<rparr>" now] by simp
  show ?thesis
    using g st u v
    by (simp add: updateTaskStatus_def isValidTransition_table status_of_name_status_name)
qed

theorem updateTaskStatus_totality_witness:
  "distinct (map task_id (tasks ex_db0))
   \<and> find (\<lambda>x. task_id x = 31 \<and> task_deletedAt x = None) (tasks ex_db0) =
       Some (ex_task 31 OPEN (Some 2) (Some 5) None)
   \<and> findMembership 2 (task_groupId (ex_task 31 OPEN (Some 2) (Some 5) None)) ex_db0 \<noteq> None
   \<and> (OPEN, IN_PROGRESS) \<in> set spec_transition_table
   \<and> (OPEN, COMPLETED) \<notin> set spec_transition_table
   \<and> fst (updateTaskStatus 77 31 ''IN_PROGRESS'' 2 ex_db0) =
       Inr ((ex_task 31 IN_PROGRESS (Some 2) (Some 5) None)\<lparr>task_updatedAt := 77\<rparr>)
   \<and> updateTaskStatus 77 31 ''COMPLETED'' 2 ex_db0 =
       (Inl (TaskError ''INVALID_TRANSITION'' ''Cannot transition from OPEN to COMPLETED'' 400),
        ex_db0)"
proof -
  let ?t = "ex_task 31 OPEN (Some 2) (Some 5) None"
  have h1: "distinct (map task_id (tasks ex_db0))" by (simp add: ex_defs)
  have h2: "find (\<lambda>x. task_id x = 31 \<and> task_deletedAt x = None) (tasks ex_db0) = Some ?t"
    by (simp add: ex_defs)
  have h3: "task_status ?t = OPEN" by (simp add: ex_defs)
  have h4: "findMembership 2 (task_groupId ?t) ex_db0 \<noteq> None"
    by (simp add: findMembership_def ex_defs)
  have a: "(OPEN, IN_PROGRESS) \<in> set spec_transition_table"
    and b: "(OPEN, COMPLETED) \<notin> set spec_transition_table"
    by (simp_all add: spec_transition_table_def)
  from updateTaskStatus_totality[OF h1 h2 h3 h4, of IN_PROGRESS 77] a
  have c: "fst (updateTaskStatus 77 31 ''IN_PROGRESS'' 2 ex_db0) =
       Inr ((ex_task 31 IN_PROGRESS (Some 2) (Some 5) None)\<lparr>task_updatedAt := 77\<rparr>)"
    by (auto simp: status_name_def ex_defs)
  from updateTaskStatus_totality[OF h1 h2 h3 h4, of COMPLETED 77] b
  have d: "updateTaskStatus 77 31 ''COMPLETED'' 2 ex_db0 =
       (Inl (TaskError ''INVALID_TRANSITION'' ''Cannot transition from OPEN to COMPLETED'' 400),
        ex_db0)"
    by (simp add: status_name_def)
  show ?thesis using h1 h2 h4 a b c d by simp
qed

section \<open>The assignment handshake\<close>




section \<open>Login rejections\<close>

text \<open>
  Claim C6, as amended. An unknown email and an account without a password hash yield
  \<open>INVALID_CREDENTIALS\<close>. For an account with a password hash: a soft-deleted account
  yields \<open>ACCOUNT_DELETED\<close>, and an account that is not deleted and is suspended
  yields \<open>ACCOUNT_SUSPENDED\<close>, in both cases whatever the password submitted and
  whatever the password check would answer; an account that is neither deleted nor
  suspended yields, on a wrong password, the same \<open>INVALID_CREDENTIALS\<close> error as an
  unknown email (same code, message and status).
\<close>

theorem loginUser_rejections:
  "(find (\<lambda>u. user_email u = li_email input) (users d) = None \<longrightarrow>
      loginUser verifyPassword cfg now newId randomUUID input d =
        (Inl (AuthError ''INVALID_CREDENTIALS'' ''Invalid email or password'' 401), d))
   \<and> (\<forall>u. find (\<lambda>u. user_email u = li_email input) (users d) = Some u
          \<and> (user_passwordHash u = None \<or> user_passwordHash u = Some []) \<longrightarrow>
        loginUser verifyPassword cfg now newId randomUUID input d =
          (Inl (AuthError ''INVALID_CREDENTIALS'' ''Invalid email or password'' 401), d))
   \<and> (\<forall>u h. find (\<lambda>u. user_email u = li_email input) (users d) = Some u
          \<and> user_passwordHash u = Some h \<and> h \<noteq> [] \<longrightarrow>
        (user_deletedAt u \<noteq> None \<longrightarrow>
           loginUser verifyPassword cfg now newId randomUUID input d =
             (Inl (AuthError ''ACCOUNT_DELETED'' ''This account has been deactivated'' 401), d))
      \<and> (user_deletedAt u = None \<and> user_status u = SUSPENDED \<longrightarrow>
           loginUser verifyPassword cfg now newId randomUUID input d =
             (Inl (AuthError ''ACCOUNT_SUSPENDED'' ''This account has been suspended'' 403), d))
      \<and> (user_deletedAt u = None \<and> user_status u \<noteq> SUSPENDED
            \<and> \<not> verifyPassword h (li_password input) \<longrightarrow>
           loginUser verifyPassword cfg now newId randomUUID input d =
             (Inl (AuthError ''INVALID_CREDENTIALS'' ''Invalid email or password'' 401), d)))"
  by (auto simp: loginUser_def)

theorem loginUser_rejections_witness:
  "find (\<lambda>u. user_email u = ''erin@example.com'') (users ex_db0) = Some erin
   \<and> loginUser ex_verifyPassword ex_cfg 100 10 100
        \<lparr>li_email = ''erin@example.com'', li_password = ''pw-erin''\<rparr> ex_db0 =
       (Inl (AuthError ''ACCOUNT_DELETED'' ''This account has been deactivated'' 401), ex_db0)
   \<and> find (\<lambda>u. user_email u = ''dave@example.com'') (users ex_db0) = Some dave
   \<and> loginUser ex_verifyPassword ex_cfg 100 10 100
        \<lparr>li_email = ''dave@example.com'', li_password = ''pw-dave''\<rparr> ex_db0 =
       (Inl (AuthError ''ACCOUNT_SUSPENDED'' ''This account has been suspended'' 403), ex_db0)
   \<and> find (\<lambda>u. user_email u = ''alice@example.com'') (users ex_db0) = Some alice
   \<and> loginUser ex_verifyPassword ex_cfg 100 10 100
        \<lparr>li_email = ''alice@example.com'', li_password = ''guess''\<rparr> ex_db0 =
       (Inl (AuthError ''INVALID_CREDENTIALS'' ''Invalid email or password'' 401), ex_db0)
   \<and> find (\<lambda>u. user_email u = ''carol@example.com'') (users ex_db0) = Some carol
   \<and> user_passwordHash carol = None
   \<and> loginUser ex_verifyPassword ex_cfg 100 10 100
        \<lparr>li_email = ''carol@example.com'', li_password = ''guess''\<rparr> ex_db0 =
       (Inl (AuthError ''INVALID_CREDENTIALS'' ''Invalid email or password'' 401), ex_db0)
   \<and> find (\<lambda>u. user_email u = ''nobody@example.com'') (users ex_db0) = None
   \<and> loginUser ex_verifyPassword ex_cfg 100 10 100
        \<lparr>li_email = ''nobody@example.com'', li_password = ''guess''\<rparr> ex_db0 =
       (Inl (AuthError ''INVALID_CREDENTIALS'' ''Invalid email or password'' 401), ex_db0)"
proof -
  let ?vp = ex_verifyPassword
  have fe: "find (\<lambda>u. user_email u = ''erin@example.com'') (users ex_db0) = Some erin"
    and fd: "find (\<lambda>u. user_email u = ''dave@example.com'') (users ex_db0) = Some dave"
    and fa: "find (\<lambda>u. user_email u = ''alice@example.com'') (users ex_db0) = Some alice"
    and fc: "find (\<lambda>u. user_email u = ''carol@example.com'') (users ex_db0) = Some carol"
    and fn: "find (\<lambda>u. user_email u = ''nobody@example.com'') (users ex_db0) = None"
    by (simp_all add: ex_defs)
  have e: "user_passwordHash erin = Some ''pw-erin''" "user_deletedAt erin \<noteq> None"
    and d: "user_passwordHash dave = Some ''pw-dave''" "user_deletedAt dave = None"
           "user_status dave = SUSPENDED"
    and a: "user_passwordHash alice = Some ''pw-alice''" "user_deletedAt alice = None"
           "user_status alice \<noteq> SUSPENDED"
    and c: "user_passwordHash carol = None"
    by (simp_all add: ex_defs)
  have 5: "loginUser ex_verifyPassword ex_cfg 100 10 100
        \<lparr>li_email = ''carol@example.com'', li_password = ''guess''\<rparr> ex_db0 =
       (Inl (AuthError ''INVALID_CREDENTIALS'' ''Invalid email or password'' 401), ex_db0)"
    using loginUser_rejections[where input = "\<lparr>li_email = ''carol@example.com'', li_password = ''guess''\<rparr>"
            and d = ex_db0 and verifyPassword = ex_verifyPassword and cfg = ex_cfg and now = 100
            and newId = 10 and randomUUID = 100] fc c
    by simp
  have 1: "loginUser ?vp ex_cfg 100 10 100
        \<lparr>li_email = ''erin@example.com'', li_password = ''pw-erin''\<rparr> ex_db0 =
       (Inl (AuthError ''ACCOUNT_DELETED'' ''This account has been deactivated'' 401), ex_db0)"
    using loginUser_rejections[where input = "\<lparr>li_email = ''erin@example.com'', li_password = ''pw-erin''\<rparr>"
            and d = ex_db0 and verifyPassword = ?vp and cfg = ex_cfg and now = 100
            and newId = 10 and randomUUID = 100] fe e
    by (simp add: ex_verifyPassword_def)
  have 2: "loginUser ?vp ex_cfg 100 10 100
        \<lparr>li_email = ''dave@example.com'', li_password = ''pw-dave''\<rparr> ex_db0 =
       (Inl (AuthError ''ACCOUNT_SUSPENDED'' ''This account has been suspended'' 403), ex_db0)"
    using loginUser_rejections[where input = "\<lparr>li_email = ''dave@example.com'', li_password = ''pw-dave''\<rparr>"
            and d = ex_db0 and verifyPassword = ?vp and cfg = ex_cfg and now = 100
            and newId = 10 and randomUUID = 100] fd d
    by (simp add: ex_verifyPassword_def)
  have 3: "loginUser ?vp ex_cfg 100 10 100
        \<lparr>li_email = ''alice@example.com'', li_password = ''guess''\<rparr> ex_db0 =
       (Inl (AuthError ''INVALID_CREDENTIALS'' ''Invalid email or password'' 401), ex_db0)"
    using loginUser_rejections[where input = "\<lparr>li_email = ''alice@example.com'', li_password = ''guess''\<rparr>"
            and d = ex_db0 and verifyPassword = ?vp and cfg = ex_cfg and now = 100
            and newId = 10 and randomUUID = 100] fa a
    by (simp add: ex_verifyPassword_def)
  have 4: "loginUser ?vp ex_cfg 100 10 100
        \<lparr>li_email = ''nobody@example.com'', li_password = ''guess''\<rparr> ex_db0 =
       (Inl (AuthError ''INVALID_CREDENTIALS'' ''Invalid email or password'' 401), ex_db0)"
    using loginUser_rejections[where input = "\<lparr>li_email = ''nobody@example.com'', li_password = ''guess''\<rparr>"
            and d = ex_db0 and verifyPassword = ?vp and cfg = ex_cfg and now = 100
            and newId = 10 and randomUUID = 100] fn
    by (simp add: ex_verifyPassword_def)
  show ?thesis using fe fd fa fc c fn 1 2 3 4 5 by simp
qed

text \<open>
  The claim as stated says that a soft-deleted account yields \<open>ACCOUNT_DELETED\<close>
  and a suspended account \<open>ACCOUNT_SUSPENDED\<close>. Carol's account is soft-deleted and
  has no password hash: her login yields \<open>INVALID_CREDENTIALS\<close>. Frank's account is
  suspended and soft-deleted: his login yields \<open>ACCOUNT_DELETED\<close>.
\<close>

theorem login_deleted_without_hash_counterexample:
  "carol \<in> set (users ex_db0)
   \<and> user_email carol = ''carol@example.com''
   \<and> user_deletedAt carol = Some 50
   \<and> loginUser ex_verifyPassword ex_cfg 100 10 100
        \<lparr>li_email = ''carol@example.com'', li_password = ''pw-carol''\<rparr> ex_db0 =
       (Inl (AuthError ''INVALID_CREDENTIALS'' ''Invalid email or password'' 401), ex_db0)
   \<and> frank \<in> set (users ex_db0)
   \<and> user_email frank = ''frank@example.com''
   \<and> user_status frank = SUSPENDED
   \<and> loginUser ex_verifyPassword ex_cfg 100 10 100
        \<lparr>li_email = ''frank@example.com'', li_password = ''pw-frank''\<rparr> ex_db0 =
       (Inl (AuthError ''ACCOUNT_DELETED'' ''This account has been deactivated'' 401), ex_db0)"
  by (simp add: loginUser_def ex_defs)

section \<open>Enumeration resistance of the recovery endpoints\<close>

text \<open>
  Claim C7, as amended. \<open>resendVerification\<close> and \<open>requestPasswordReset\<close> return
  a token or nothing and never an error. Either endpoint first validates the body: a body
  without a well-formed email is answered with status 400 and the store is left as it
  is; otherwise the address is lower-cased and handed to the service function. In
  production the response to a valid body is the same fixed message for every address
  and every store (the password-reset endpoint answering 400 when the feature is
  disabled); outside production the response carries, besides the message, the raw token
  exactly when one was issued. The store changes as the service function changes it: a
  verification token is issued when a user with that email has status UNVERIFIED, a reset
  token when a user with that email is not soft-deleted, the user's earlier tokens of that
  kind being deleted; otherwise nothing is returned and the store is unchanged. Emails
  are unique in the user table.
\<close>

theorem recovery_enumeration_resistance:
  assumes uq: "distinct (map user_email (users d))"
  shows
  "(NODE_ENV cfg = Some ''production'' \<longrightarrow>
      fst (fst (resendVerificationRoute lib cfg now newId rnd req d)) =
        (case resendVerificationSchema lib (req_body req) of
           Inl error \<Rightarrow> zodErrorToProblem error (req_url req)
         | Inr address \<Rightarrow>
             \<lparr>res_status = 200,
              res_payload = [(''message'', JString
                ''If an unverified account exists, a verification email has been sent.'')]\<rparr>)
    \<and> (ENABLE_PASSWORD_RESET cfg \<longrightarrow>
        fst (fst (forgotPasswordRoute lib cfg now newId rnd req d)) =
          (case forgotPasswordSchema lib (req_body req) of
             Inl error \<Rightarrow> zodErrorToProblem error (req_url req)
           | Inr address \<Rightarrow>
               \<lparr>res_status = 200,
                res_payload = [(''message'', JString
                  ''If an account exists, a password reset link has been sent.'')]\<rparr>)))
   \<and> (NODE_ENV cfg \<noteq> Some ''production'' \<longrightarrow>
      fst (fst (resendVerificationRoute lib cfg now newId rnd req d)) =
        (case resendVerificationSchema lib (req_body req) of
           Inl error \<Rightarrow> zodErrorToProblem error (req_url req)
         | Inr address \<Rightarrow>
             \<lparr>res_status = 200,
              res_payload = (''message'', JString
                ''If an unverified account exists, a verification email has been sent.'')
                # (case fst (resendVerification now newId rnd address d) of
                     None \<Rightarrow> []
                   | Some s \<Rightarrow> if s = [] then [] else [(''verificationToken'', JString s)])\<rparr>)
    \<and> (ENABLE_PASSWORD_RESET cfg \<longrightarrow>
        fst (fst (forgotPasswordRoute lib cfg now newId rnd req d)) =
          (case forgotPasswordSchema lib (req_body req) of
             Inl error \<Rightarrow> zodErrorToProblem error (req_url req)
           | Inr address \<Rightarrow>
               \<lparr>res_status = 200,
                res_payload = (''message'', JString
                  ''If an account exists, a password reset link has been sent.'')
                  # (case fst (requestPasswordReset now newId rnd address d) of
                       None \<Rightarrow> []
                     | Some s \<Rightarrow> if s = [] then [] else [(''resetToken'', JString s)])\<rparr>)))
   \<and> (\<not> ENABLE_PASSWORD_RESET cfg \<longrightarrow>
        res_status (fst (fst (forgotPasswordRoute lib cfg now newId rnd req d))) = 400
        \<and> snd (forgotPasswordRoute lib cfg now newId rnd req d) = d)
   \<and> snd (resendVerificationRoute lib cfg now newId rnd req d) =
       (case resendVerificationSchema lib (req_body req) of
          Inl error \<Rightarrow> d
        | Inr address \<Rightarrow> snd (resendVerification now newId rnd address d))
   \<and> (ENABLE_PASSWORD_RESET cfg \<longrightarrow>
        snd (forgotPasswordRoute lib cfg now newId rnd req d) =
          (case forgotPasswordSchema lib (req_body req) of
             Inl error \<Rightarrow> d
           | Inr address \<Rightarrow> snd (requestPasswordReset now newId rnd address d)))
   \<and> (\<forall>u\<in>set (users d). user_email u = email \<and> user_status u = UNVERIFIED \<longrightarrow>
        resendVerification now newId rnd email d =
          (Some rnd,
           d\<lparr>verification_tokens :=
               filter (\<lambda>t. ot_userId t \<noteq> user_id u) (verification_tokens d)
               @ [verification_row now newId rnd (user_id u)]\<rparr>))
   \<and> (\<not> (\<exists>u\<in>set (users d). user_email u = email \<and> user_status u = UNVERIFIED) \<longrightarrow>
        resendVerification now newId rnd email d = (None, d))
   \<and> (\<forall>u\<in>set (users d). user_email u = email \<and> user_deletedAt u = None \<longrightarrow>
        requestPasswordReset now newId rnd email d =
          (Some rnd,
           d\<lparr>password_reset_tokens :=
               filter (\<lambda>t. ot_userId t \<noteq> user_id u) (password_reset_tokens d)
               @ [reset_row now newId rnd (user_id u)]\<rparr>))
   \<and> (\<not> (\<exists>u\<in>set (users d). user_email u = email \<and> user_deletedAt u = None) \<longrightarrow>
        requestPasswordReset now newId rnd email d = (None, d))"
proof -
  have resend_prod: "NODE_ENV cfg = Some ''production'' \<Longrightarrow>
      fst (fst (resendVerificationRoute lib cfg now newId rnd req d)) =
        (case resendVerificationSchema lib (req_body req) of
           Inl error \<Rightarrow> zodErrorToProblem error (req_url req)
         | Inr address \<Rightarrow>
             \<lparr>res_status = 200,
              res_payload = [(''message'', JString
                ''If an unverified account exists, a verification email has been sent.'')]\<rparr>)"
    by (simp add: routes_cut handlers_production split: sum.splits)
  have forgot_prod: "NODE_ENV cfg = Some ''production'' \<Longrightarrow> ENABLE_PASSWORD_RESET cfg \<Longrightarrow>
        fst (fst (forgotPasswordRoute lib cfg now newId rnd req d)) =
          (case forgotPasswordSchema lib (req_body req) of
             Inl error \<Rightarrow> zodErrorToProblem error (req_url req)
           | Inr address \<Rightarrow>
               \<lparr>res_status = 200,
                res_payload = [(''message'', JString
                  ''If an account exists, a password reset link has been sent.'')]\<rparr>)"
    by (simp add: routes_cut handlers_production split: sum.splits)
  have resend_dev: "NODE_ENV cfg \<noteq> Some ''production'' \<Longrightarrow>
      fst (fst (resendVerificationRoute lib cfg now newId rnd req d)) =
        (case resendVerificationSchema lib (req_body req) of
           Inl error \<Rightarrow> zodErrorToProblem error (req_url req)
         | Inr address \<Rightarrow>
             \<lparr>res_status = 200,
              res_payload = (''message'', JString
                ''If an unverified account exists, a verification email has been sent.'')
                # (case fst (resendVerification now newId rnd address d) of
                     None \<Rightarrow> []
                   | Some s \<Rightarrow> if s = [] then [] else [(''verificationToken'', JString s)])\<rparr>)"
    by (simp add: routes_cut handlers_non_production split: sum.splits)
  have forgot_dev: "NODE_ENV cfg \<noteq> Some ''production'' \<Longrightarrow> ENABLE_PASSWORD_RESET cfg \<Longrightarrow>
        fst (fst (forgotPasswordRoute lib cfg now newId rnd req d)) =
          (case forgotPasswordSchema lib (req_body req) of
             Inl error \<Rightarrow> zodErrorToProblem error (req_url req)
           | Inr address \<Rightarrow>
               \<lparr>res_status = 200,
                res_payload = (''message'', JString
                  ''If an account exists, a password reset link has been sent.'')
                  # (case fst (requestPasswordReset now newId rnd address d) of
                       None \<Rightarrow> []
                     | Some s \<Rightarrow> if s = [] then [] else [(''resetToken'', JString s)])\<rparr>)"
    by (simp add: routes_cut handlers_non_production split: sum.splits)
  have off: "\<not> ENABLE_PASSWORD_RESET cfg \<Longrightarrow>
        res_status (fst (fst (forgotPasswordRoute lib cfg now newId rnd req d))) = 400
        \<and> snd (forgotPasswordRoute lib cfg now newId rnd req d) = d"
    by (simp add: routes_cut handlers_store(3) zodErrorToProblem_def split: sum.splits)
  have resend_store: "snd (resendVerificationRoute lib cfg now newId rnd req d) =
       (case resendVerificationSchema lib (req_body req) of
          Inl error \<Rightarrow> d
        | Inr address \<Rightarrow> snd (resendVerification now newId rnd address d))"
    by (simp add: routes_cut handlers_store(1) split: sum.splits)
  have forgot_store: "ENABLE_PASSWORD_RESET cfg \<Longrightarrow>
        snd (forgotPasswordRoute lib cfg now newId rnd req d) =
          (case forgotPasswordSchema lib (req_body req) of
             Inl error \<Rightarrow> d
           | Inr address \<Rightarrow> snd (requestPasswordReset now newId rnd address d))"
    by (simp add: routes_cut handlers_store(2) split: sum.splits)
  show ?thesis
    using resend_prod forgot_prod resend_dev forgot_dev off resend_store forgot_store
        resendVerification_eligible[OF uq, of _ email now newId rnd]
        resendVerification_ineligible[of d email now newId rnd]
        requestPasswordReset_eligible[OF uq, of _ email now newId rnd]
        requestPasswordReset_ineligible[of d email now newId rnd]
    by (intro conjI impI ballI) blast+
qed

theorem recovery_enumeration_resistance_witness:
  "distinct (map user_email (users ex_db0))
   \<and> NODE_ENV ex_cfg = Some ''production''
   \<and> fst (fst (resendVerificationRoute ex_lib ex_cfg 100 41 ''a1b2''
                  (ex_request ''/api/v1/auth/resend-verification'' ''BOB@EXAMPLE.COM'') ex_db0)) =
       fst (fst (resendVerificationRoute ex_lib ex_cfg 100 41 ''a1b2''
                  (ex_request ''/api/v1/auth/resend-verification'' ''nobody@example.com'')
                  ex_db0))
   \<and> res_status (fst (fst (resendVerificationRoute ex_lib ex_cfg 100 41 ''a1b2''
                  (ex_request ''/api/v1/auth/resend-verification'' ''not an address'')
                  ex_db0))) = 400
   \<and> snd (resendVerificationRoute ex_lib ex_cfg 100 41 ''a1b2''
            (ex_request ''/api/v1/auth/resend-verification'' ''not an address'') ex_db0) = ex_db0
   \<and> bob \<in> set (users ex_db0) \<and> user_email bob = ''bob@example.com''
   \<and> user_status bob = UNVERIFIED
   \<and> snd (resendVerificationRoute ex_lib ex_cfg 100 41 ''a1b2''
            (ex_request ''/api/v1/auth/resend-verification'' ''BOB@EXAMPLE.COM'') ex_db0) =
        ex_db0\<lparr>verification_tokens :=
                 [\<lparr>ot_id = 41, ot_tokenHash = Sha256 (Str ''a1b2''), ot_userId = 2,
                   ot_expiresAt = 86400100\<rparr>]\<rparr>
   \<and> resendVerification 100 41 ''a1b2'' ''nobody@example.com'' ex_db0 = (None, ex_db0)
   \<and> requestPasswordReset 100 41 ''a1b2'' ''erin@example.com'' ex_db0 = (None, ex_db0)
   \<and> alice \<in> set (users ex_db0) \<and> user_email alice = ''alice@example.com''
   \<and> user_deletedAt alice = None
   \<and> requestPasswordReset 100 41 ''a1b2'' ''alice@example.com'' ex_db0 =
       (Some ''a1b2'',
        ex_db0\<lparr>password_reset_tokens :=
                 [\<lparr>ot_id = 41, ot_tokenHash = Sha256 (Str ''a1b2''), ot_userId = 1,
                   ot_expiresAt = 900100\<rparr>]\<rparr>)
   \<and> NODE_ENV dev_cfg \<noteq> Some ''production''
   \<and> res_payload (fst (fst (forgotPasswordRoute ex_lib dev_cfg 100 41 ''a1b2''
                  (ex_request ''/api/v1/auth/forgot-password'' ''Alice@Example.com'')
                  ex_db0))) =
       [(''message'', JString ''If an account exists, a password reset link has been sent.''),
        (''resetToken'', JString ''a1b2'')]"
proof -
  let ?url = "''/api/v1/auth/resend-verification''"
  have uq: "distinct (map user_email (users ex_db0))" by (simp add: ex_defs)
  have pr: "NODE_ENV ex_cfg = Some ''production''" by (simp add: ex_defs)
  have b: "bob \<in> set (users ex_db0)" "user_email bob = ''bob@example.com''"
    "user_status bob = UNVERIFIED" "user_id bob = 2"
    by (simp_all add: ex_defs)
  have nb: "\<not> (\<exists>u\<in>set (users ex_db0). user_email u = ''nobody@example.com''
                \<and> user_status u = UNVERIFIED)"
    and ne: "\<not> (\<exists>u\<in>set (users ex_db0). user_email u = ''erin@example.com''
                \<and> user_deletedAt u = None)"
    by (simp_all add: ex_defs)
  note Hb = recovery_enumeration_resistance[OF uq, where lib = ex_lib and cfg = ex_cfg
              and now = 100 and newId = 41 and rnd = "''a1b2''"
              and req = "ex_request ?url ''BOB@EXAMPLE.COM''"
              and email = "''bob@example.com''"]
  note Hn = recovery_enumeration_resistance[OF uq, where lib = ex_lib and cfg = ex_cfg
              and now = 100 and newId = 41 and rnd = "''a1b2''"
              and req = "ex_request ?url ''nobody@example.com''"
              and email = "''nobody@example.com''"]
  note Hx = recovery_enumeration_resistance[OF uq, where lib = ex_lib and cfg = ex_cfg
              and now = 100 and newId = 41 and rnd = "''a1b2''"
              and req = "ex_request ?url ''not an address''"
              and email = "''erin@example.com''"]
  from Hb Hn pr have same:
    "fst (fst (resendVerificationRoute ex_lib ex_cfg 100 41 ''a1b2''
                  (ex_request ?url ''BOB@EXAMPLE.COM'') ex_db0)) =
       fst (fst (resendVerificationRoute ex_lib ex_cfg 100 41 ''a1b2''
                  (ex_request ?url ''nobody@example.com'') ex_db0))"
    by (simp add: ex_requests)
  from Hx pr have bad:
    "res_status (fst (fst (resendVerificationRoute ex_lib ex_cfg 100 41 ''a1b2''
                  (ex_request ?url ''not an address'') ex_db0))) = 400"
    "snd (resendVerificationRoute ex_lib ex_cfg 100 41 ''a1b2''
            (ex_request ?url ''not an address'') ex_db0) = ex_db0"
    by (simp_all add: ex_requests zodErrorToProblem_def)
  from Hb have "\<forall>u\<in>set (users ex_db0). user_email u = ''bob@example.com''
                   \<and> user_status u = UNVERIFIED \<longrightarrow>
        resendVerification 100 41 ''a1b2'' ''bob@example.com'' ex_db0 =
          (Some ''a1b2'',
           ex_db0\<lparr>verification_tokens :=
               filter (\<lambda>t. ot_userId t \<noteq> user_id u) (verification_tokens ex_db0)
               @ [verification_row 100 41 ''a1b2'' (user_id u)]\<rparr>)"
    by blast
  with b have "resendVerification 100 41 ''a1b2'' ''bob@example.com'' ex_db0 =
          (Some ''a1b2'',
           ex_db0\<lparr>verification_tokens :=
               filter (\<lambda>t. ot_userId t \<noteq> 2) (verification_tokens ex_db0)
               @ [verification_row 100 41 ''a1b2'' 2]\<rparr>)"
    by fastforce
  then have issued: "resendVerification 100 41 ''a1b2'' ''bob@example.com'' ex_db0 =
       (Some ''a1b2'',
        ex_db0\<lparr>verification_tokens :=
                 [\<lparr>ot_id = 41, ot_tokenHash = Sha256 (Str ''a1b2''), ot_userId = 2,
                   ot_expiresAt = 86400100\<rparr>]\<rparr>)"
    by (simp add: verification_row_def hashToken_def ex_db0_def)
  from Hb have "snd (resendVerificationRoute ex_lib ex_cfg 100 41 ''a1b2''
            (ex_request ?url ''BOB@EXAMPLE.COM'') ex_db0) =
       (case resendVerificationSchema ex_lib (req_body (ex_request ?url ''BOB@EXAMPLE.COM'')) of
          Inl error \<Rightarrow> ex_db0
        | Inr address \<Rightarrow> snd (resendVerification 100 41 ''a1b2'' address ex_db0))"
    by blast
  then have stored: "snd (resendVerificationRoute ex_lib ex_cfg 100 41 ''a1b2''
            (ex_request ?url ''BOB@EXAMPLE.COM'') ex_db0) =
        ex_db0\<lparr>verification_tokens :=
                 [\<lparr>ot_id = 41, ot_tokenHash = Sha256 (Str ''a1b2''), ot_userId = 2,
                   ot_expiresAt = 86400100\<rparr>]\<rparr>"
    by (simp add: ex_requests issued)
  from Hn nb have none: "resendVerification 100 41 ''a1b2'' ''nobody@example.com'' ex_db0 = (None, ex_db0)"
    by blast
  from Hx ne have nore: "requestPasswordReset 100 41 ''a1b2'' ''erin@example.com'' ex_db0 = (None, ex_db0)"
    by blast
  have a: "alice \<in> set (users ex_db0)" "user_email alice = ''alice@example.com''"
    "user_deletedAt alice = None" "user_id alice = 1"
    by (simp_all add: ex_defs)
  note Ha = recovery_enumeration_resistance[OF uq, where lib = ex_lib and cfg = dev_cfg
              and now = 100 and newId = 41 and rnd = "''a1b2''"
              and req = "ex_request ''/api/v1/auth/forgot-password'' ''Alice@Example.com''"
              and email = "''alice@example.com''"]
  from Ha have "\<forall>u\<in>set (users ex_db0). user_email u = ''alice@example.com''
                   \<and> user_deletedAt u = None \<longrightarrow>
        requestPasswordReset 100 41 ''a1b2'' ''alice@example.com'' ex_db0 =
          (Some ''a1b2'',
           ex_db0\<lparr>password_reset_tokens :=
               filter (\<lambda>t. ot_userId t \<noteq> user_id u) (password_reset_tokens ex_db0)
               @ [reset_row 100 41 ''a1b2'' (user_id u)]\<rparr>)"
    by blast
  with a have "requestPasswordReset 100 41 ''a1b2'' ''alice@example.com'' ex_db0 =
          (Some ''a1b2'',
           ex_db0\<lparr>password_reset_tokens :=
               filter (\<lambda>t. ot_userId t \<noteq> 1) (password_reset_tokens ex_db0)
               @ [reset_row 100 41 ''a1b2'' 1]\<rparr>)"
    by fastforce
  then have reset: "requestPasswordReset 100 41 ''a1b2'' ''alice@example.com'' ex_db0 =
       (Some ''a1b2'',
        ex_db0\<lparr>password_reset_tokens :=
                 [\<lparr>ot_id = 41, ot_tokenHash = Sha256 (Str ''a1b2''), ot_userId = 1,
                   ot_expiresAt = 900100\<rparr>]\<rparr>)"
    by (simp add: reset_row_def hashToken_def ex_db0_def)
  have dv: "NODE_ENV dev_cfg \<noteq> Some ''production''" "ENABLE_PASSWORD_RESET dev_cfg"
    by (simp_all add: ex_defs)
  from Ha dv have "fst (fst (forgotPasswordRoute ex_lib dev_cfg 100 41 ''a1b2''
                  (ex_request ''/api/v1/auth/forgot-password'' ''Alice@Example.com'')
                  ex_db0)) =
          (case forgotPasswordSchema ex_lib
                  (req_body (ex_request ''/api/v1/auth/forgot-password'' ''Alice@Example.com'')) of
             Inl error \<Rightarrow>
               zodErrorToProblem error
                 (req_url (ex_request ''/api/v1/auth/forgot-password'' ''Alice@Example.com''))
           | Inr address \<Rightarrow>
               \<lparr>res_status = 200,
                res_payload = (''message'', JString
                  ''If an account exists, a password reset link has been sent.'')
                  # (case fst (requestPasswordReset 100 41 ''a1b2'' address ex_db0) of
                       None \<Rightarrow> []
                     | Some s \<Rightarrow> if s = [] then [] else [(''resetToken'', JString s)])\<rparr>)"
    by blast
  then have echo: "res_payload (fst (fst (forgotPasswordRoute ex_lib dev_cfg 100 41 ''a1b2''
                  (ex_request ''/api/v1/auth/forgot-password'' ''Alice@Example.com'')
                  ex_db0))) =
       [(''message'', JString ''If an account exists, a password reset link has been sent.''),
        (''resetToken'', JString ''a1b2'')]"
    by (simp add: ex_requests reset)
  show ?thesis
    by (intro conjI uq pr same bad b(1,2,3) stored none nore a(1,2,3) reset dv(1) echo)
qed

text \<open>
  The claim as stated says that the caller sees the same response whether or not an
  account exists. Outside production the response for Bob's email carries the token, the
  response for an unknown email does not.
\<close>

theorem token_echo_counterexample:
  "bob \<in> set (users ex_db0) \<and> user_email bob = ''bob@example.com''
   \<and> ''nobody@example.com'' \<notin> set (map user_email (users ex_db0))
   \<and> fst (fst (resendVerificationRoute ex_lib dev_cfg 100 41 ''a1b2''
                  (ex_request ''/api/v1/auth/resend-verification'' ''bob@example.com'')
                  ex_db0)) =
       \<lparr>res_status = 200,
        res_payload =
          [(''message'', JString
              ''If an unverified account exists, a verification email has been sent.''),
           (''verificationToken'', JString ''a1b2'')]\<rparr>
   \<and> fst (fst (resendVerificationRoute ex_lib dev_cfg 100 41 ''a1b2''
                  (ex_request ''/api/v1/auth/resend-verification'' ''nobody@example.com'')
                  ex_db0)) =
       \<lparr>res_status = 200,
        res_payload =
          [(''message'', JString
              ''If an unverified account exists, a verification email has been sent.'')]\<rparr>
   \<and> fst (fst (forgotPasswordRoute ex_lib dev_cfg 100 41 ''a1b2''
                  (ex_request ''/api/v1/auth/forgot-password'' ''bob@example.com'') ex_db0)) =
       \<lparr>res_status = 200,
        res_payload =
          [(''message'', JString ''If an account exists, a password reset link has been sent.''),
           (''resetToken'', JString ''a1b2'')]\<rparr>
   \<and> fst (fst (forgotPasswordRoute ex_lib dev_cfg 100 41 ''a1b2''
                  (ex_request ''/api/v1/auth/forgot-password'' ''nobody@example.com'')
                  ex_db0)) =
       \<lparr>res_status = 200,
        res_payload =
          [(''message'', JString
              ''If an account exists, a password reset link has been sent.'')]\<rparr>"
  by (simp add: resendVerificationRoute_def resendVerificationHandler_def
        resendVerification_def forgotPasswordRoute_def forgotPasswordHandler_def
        requestPasswordReset_def validateBody_def resendVerificationSchema_def
        forgotPasswordSchema_def generateOpaqueToken_def Let_def ex_defs ex_email_def
        ex_toLowerCase_def ex_lib_def ex_request_def)

section \<open>Password reset\<close>

text \<open>
  Claim C8. For a stored, unexpired password-reset token, \<open>resetPassword\<close> either
  applies none of its writes (when the user row is missing, which the foreign key of the
  token excludes) or succeeds with all three applied: the user of the token has the new
  password hash, the consumed token is deleted, and every refresh token of that user, of
  whatever family, is revoked; nothing else changes.
\<close>

theorem resetPassword_success:
  assumes found: "find (\<lambda>t. ot_tokenHash t = hashToken raw) (password_reset_tokens d) = Some stored"
      and unexpired: "\<not> ot_expiresAt stored < now"
  shows "(find (\<lambda>u. user_id u = ot_userId stored) (users d) = None \<longrightarrow>
            resetPassword hashPassword now raw newPassword d = (Inl (PrismaError ''P2025''), d))
       \<and> (\<forall>u. find (\<lambda>u. user_id u = ot_userId stored) (users d) = Some u \<longrightarrow>
            (\<exists>d'. resetPassword hashPassword now raw newPassword d = (Inr (), d')
               \<and> find (\<lambda>u. user_id u = ot_userId stored) (users d') =
                   Some (u\<lparr>user_passwordHash := Some (hashPassword newPassword)\<rparr>)
               \<and> (\<forall>x\<in>set (users d'). user_id x = ot_userId stored \<longrightarrow>
                     user_passwordHash x = Some (hashPassword newPassword))
               \<and> (\<forall>t\<in>set (password_reset_tokens d'). ot_id t \<noteq> ot_id stored)
               \<and> (\<forall>r\<in>set (refresh_tokens d'). rt_userId r = ot_userId stored \<longrightarrow> rt_revoked r)
               \<and> d' = d\<lparr>users := map (\<lambda>x. if user_id x = ot_userId stored
                                          then x\<lparr>user_passwordHash := Some (hashPassword newPassword)\<rparr>
                                          else x) (users d),
                        password_reset_tokens :=
                          filter (\<lambda>t. ot_id t \<noteq> ot_id stored) (password_reset_tokens d),
                        refresh_tokens :=
                          map (\<lambda>r. if rt_userId r = ot_userId stored
                                    then r\<lparr>rt_revoked := True\<rparr> else r) (refresh_tokens d)\<rparr>))"
proof (intro conjI impI allI)
  assume "find (\<lambda>u. user_id u = ot_userId stored) (users d) = None"
  then show "resetPassword hashPassword now raw newPassword d = (Inl (PrismaError ''P2025''), d)"
    using found unexpired by (simp add: resetPassword_def resetPassword_transaction_def)
next
  fix u
  assume u: "find (\<lambda>u. user_id u = ot_userId stored) (users d) = Some u"
  let ?g = "\<lambda>x. if user_id x = ot_userId stored
                 then x\<lparr>user_passwordHash := Some (hashPassword newPassword)\<rparr> else x"
  let ?d' = "d\<lparr>users := map ?g (users d),
               password_reset_tokens :=
                 filter (\<lambda>t. ot_id t \<noteq> ot_id stored) (password_reset_tokens d),
               refresh_tokens :=
                 map (\<lambda>r. if rt_userId r = ot_userId stored
                           then r\<lparr>rt_revoked := True\<rparr> else r) (refresh_tokens d)\<rparr>"
  have res: "resetPassword hashPassword now raw newPassword d = (Inr (), ?d')"
    using found unexpired u
    by (simp add: resetPassword_def resetPassword_transaction_def Let_def revokeWhere_def)
  have "find (\<lambda>u. user_id u = ot_userId stored) (map ?g (users d))
          = map_option ?g (find (\<lambda>u. user_id u = ot_userId stored) (users d))"
    by (rule find_map_preserve) simp
  moreover have "user_id u = ot_userId stored" using u by (auto simp: find_Some_iff)
  ultimately have f: "find (\<lambda>u. user_id u = ot_userId stored) (users ?d') =
                   Some (u\<lparr>user_passwordHash := Some (hashPassword newPassword)\<rparr>)"
    using u by simp
  show "\<exists>d'. resetPassword hashPassword now raw newPassword d = (Inr (), d')
               \<and> find (\<lambda>u. user_id u = ot_userId stored) (users d') =
                   Some (u\<lparr>user_passwordHash := Some (hashPassword newPassword)\<rparr>)
               \<and> (\<forall>x\<in>set (users d'). user_id x = ot_userId stored \<longrightarrow>
                     user_passwordHash x = Some (hashPassword newPassword))
               \<and> (\<forall>t\<in>set (password_reset_tokens d'). ot_id t \<noteq> ot_id stored)
               \<and> (\<forall>r\<in>set (refresh_tokens d'). rt_userId r = ot_userId stored \<longrightarrow> rt_revoked r)
               \<and> d' = ?d'"
    using res f by (intro exI[of _ ?d']) auto
qed

theorem resetPassword_success_witness:
  "find (\<lambda>t. ot_tokenHash t = hashToken (Str ''c0ffee'')) (password_reset_tokens ex_db2) =
     Some \<lparr>ot_id = 40, ot_tokenHash = Sha256 (Str ''c0ffee''), ot_userId = 1,
           ot_expiresAt = 900000\<rparr>
   \<and> find (\<lambda>u. user_id u = 1) (users ex_db2) = Some alice
   \<and> resetPassword ex_hashPassword 1000 (Str ''c0ffee'') ''secret'' ex_db2 =
       (Inr (),
        ex_db2\<lparr>users := [alice\<lparr>user_passwordHash := Some ''pw-secret''\<rparr>, bob, carol, dave, erin, frank],
               password_reset_tokens := [],
               refresh_tokens :=
                 [ex_row 1 20 200 True, ex_row 1 21 200 True, ex_row 5 22 300 False]\<rparr>)"
proof -
  let ?st = "\<lparr>ot_id = 40, ot_tokenHash = Sha256 (Str ''c0ffee''), ot_userId = 1,
              ot_expiresAt = 900000\<rparr>"
  have h1: "find (\<lambda>t. ot_tokenHash t = hashToken (Str ''c0ffee'')) (password_reset_tokens ex_db2)
              = Some ?st"
    by (simp add: hashToken_def ex_defs)
  have h2: "\<not> ot_expiresAt ?st < 1000" by simp
  have h3: "find (\<lambda>u. user_id u = ot_userId ?st) (users ex_db2) = Some alice"
    by (simp add: ex_defs)
  from resetPassword_success[OF h1 h2, of ex_hashPassword "''secret''"] h3
  obtain d' where
    "resetPassword ex_hashPassword 1000 (Str ''c0ffee'') ''secret'' ex_db2 = (Inr (), d')"
    "d' = ex_db2\<lparr>users := map (\<lambda>x. if user_id x = ot_userId ?st
                                    then x\<lparr>user_passwordHash := Some (ex_hashPassword ''secret'')\<rparr>
                                    else x) (users ex_db2),
                 password_reset_tokens :=
                   filter (\<lambda>t. ot_id t \<noteq> ot_id ?st) (password_reset_tokens ex_db2),
                 refresh_tokens :=
                   map (\<lambda>r. if rt_userId r = ot_userId ?st
                             then r\<lparr>rt_revoked := True\<rparr> else r) (refresh_tokens ex_db2)\<rparr>"
    by blast
  then have "resetPassword ex_hashPassword 1000 (Str ''c0ffee'') ''secret'' ex_db2 =
       (Inr (),
        ex_db2\<lparr>users := [alice\<lparr>user_passwordHash := Some ''pw-secret''\<rparr>, bob, carol, dave, erin, frank],
               password_reset_tokens := [],
               refresh_tokens :=
                 [ex_row 1 20 200 True, ex_row 1 21 200 True, ex_row 5 22 300 False]\<rparr>)"
    by (simp add: ex_defs)
  with h1 h3 show ?thesis by simp
qed

section \<open>Removing the last admin\<close>

text \<open>
  Claim C9. Let the caller be an admin of the group and the target an admin of the group,
  the pair of user and group being unique in the membership table. If the group has
  exactly one admin, \<open>removeMember\<close> fails with \<open>LAST_ADMIN\<close> and the store is
  unchanged. If it has two or more, the call succeeds, the target is no longer a member,
  and the group has one admin less, so at least one.
\<close>

theorem removeMember_last_admin:
  assumes uq: "distinct (map (\<lambda>m. (gm_userId m, gm_groupId m)) (group_members d))"
      and acting: "findMembership actingUserId groupId d = Some am" "gm_role am = ADMIN"
      and target: "findMembership targetUserId groupId d = Some tm" "gm_role tm = ADMIN"
  shows "(adminCount groupId d = 1 \<longrightarrow>
            removeMember groupId targetUserId actingUserId d =
              (Inl (GroupError ''LAST_ADMIN''
                      ''Cannot remove the last admin from the group'' 400), d))
       \<and> (2 \<le> adminCount groupId d \<longrightarrow>
            (\<exists>d'. removeMember groupId targetUserId actingUserId d = (Inr (), d')
                 \<and> findMembership targetUserId groupId d' = None
                 \<and> Suc (adminCount groupId d') = adminCount groupId d
                 \<and> 1 \<le> adminCount groupId d'))"
proof -
  let ?k = "\<lambda>m. (gm_userId m, gm_groupId m)"
  let ?P = "\<lambda>m. gm_groupId m = groupId \<and> gm_role m = ADMIN"
  have f: "find (\<lambda>x. ?k x = (targetUserId, groupId)) (group_members d) = Some tm"
    using target(1) by (simp add: findMembership_def)
  have "?P tm" using f target(2) by (auto simp: find_Some_iff)
  from count_after_delete[of ?k "group_members d" "(targetUserId, groupId)" tm ?P, OF uq f this]
  have c: "Suc (length (filter ?P (filter (\<lambda>x. ?k x \<noteq> (targetUserId, groupId)) (group_members d))))
            = adminCount groupId d"
    by (simp add: adminCount_def)
  have eq: "(\<lambda>m. \<not> (gm_userId m = targetUserId \<and> gm_groupId m = groupId)) = (\<lambda>x. ?k x \<noteq> (targetUserId, groupId))"
    by auto
  have gone: "find (\<lambda>m. gm_userId m = targetUserId \<and> gm_groupId m = groupId)
                (filter (\<lambda>m. \<not> (gm_userId m = targetUserId \<and> gm_groupId m = groupId)) (group_members d)) = None"
    by (auto simp: find_None_iff)
  show ?thesis
    using acting target c gone
    by (auto simp: removeMember_def assertGroupAdmin_def adminCount_def findMembership_def eq)
qed

theorem removeMember_last_admin_witness:
  "distinct (map (\<lambda>m. (gm_userId m, gm_groupId m)) (group_members ex_db0))
   \<and> findMembership 1 7 ex_db0 = Some \<lparr>gm_userId = 1, gm_groupId = 7, gm_role = ADMIN\<rparr>
   \<and> adminCount 7 ex_db0 = 1
   \<and> removeMember 7 1 1 ex_db0 =
       (Inl (GroupError ''LAST_ADMIN'' ''Cannot remove the last admin from the group'' 400),
        ex_db0)
   \<and> findMembership 1 8 ex_db0 = Some \<lparr>gm_userId = 1, gm_groupId = 8, gm_role = ADMIN\<rparr>
   \<and> findMembership 4 8 ex_db0 = Some \<lparr>gm_userId = 4, gm_groupId = 8, gm_role = ADMIN\<rparr>
   \<and> adminCount 8 ex_db0 = 2
   \<and> fst (removeMember 8 4 1 ex_db0) = Inr ()
   \<and> adminCount 8 (snd (removeMember 8 4 1 ex_db0)) = 1"
proof -
  let ?a7 = "\<lparr>gm_userId = 1, gm_groupId = 7, gm_role = ADMIN\<rparr>"
  let ?a8 = "\<lparr>gm_userId = 1, gm_groupId = 8, gm_role = ADMIN\<rparr>"
  let ?d8 = "\<lparr>gm_userId = 4, gm_groupId = 8, gm_role = ADMIN\<rparr>"
  have uq: "distinct (map (\<lambda>m. (gm_userId m, gm_groupId m)) (group_members ex_db0))"
    by (simp add: ex_defs)
  have m7: "findMembership 1 7 ex_db0 = Some ?a7" by (simp add: findMembership_def ex_defs)
  have m8: "findMembership 1 8 ex_db0 = Some ?a8" by (simp add: findMembership_def ex_defs)
  have t8: "findMembership 4 8 ex_db0 = Some ?d8" by (simp add: findMembership_def ex_defs)
  have c7: "adminCount 7 ex_db0 = 1" by (simp add: adminCount_def ex_defs)
  have c8: "adminCount 8 ex_db0 = 2" by (simp add: adminCount_def ex_defs)
  from removeMember_last_admin[OF uq m7 _ m7] c7
  have one: "removeMember 7 1 1 ex_db0 =
       (Inl (GroupError ''LAST_ADMIN'' ''Cannot remove the last admin from the group'' 400),
        ex_db0)"
    by simp
  from removeMember_last_admin[OF uq m8 _ t8] c8
  obtain d' where "removeMember 8 4 1 ex_db0 = (Inr (), d')" "Suc (adminCount 8 d') = 2"
    by auto
  then have two: "fst (removeMember 8 4 1 ex_db0) = Inr ()"
    "adminCount 8 (snd (removeMember 8 4 1 ex_db0)) = 1"
    by simp_all
  show ?thesis using uq m7 m8 t8 c7 c8 one two by simp
qed

section \<open>Frame of a status update\<close>

text \<open>
  Claim C10. A successful \<open>updateTaskStatus\<close> returns the visible task with only its
  status changed (and the \<open>updatedAt\<close> stamp): title, description, group, creator,
  assignee, \<open>acceptedAt\<close> and \<open>deletedAt\<close> are as before; in particular a task
  driven from \<open>PENDING_ACCEPTANCE\<close> to \<open>OPEN\<close> keeps a null \<open>acceptedAt\<close>
  (that it is null before is lemma \<open>pending_tasks_unaccepted\<close>). The new status is
  never \<open>PENDING_ACCEPTANCE\<close>. In the store, only the row with that id changes, and
  only in these two columns.
\<close>

theorem updateTaskStatus_frame:
  assumes pk: "distinct (map task_id (tasks d))"
      and ok: "updateTaskStatus now taskId newStatus userId d = (Inr t', d')"
  shows "\<exists>t. find (\<lambda>x. task_id x = taskId \<and> task_deletedAt x = None) (tasks d) = Some t
           \<and> t' = t\<lparr>task_status := task_status t', task_updatedAt := now\<rparr>
           \<and> task_title t' = task_title t
           \<and> task_description t' = task_description t
           \<and> task_groupId t' = task_groupId t
           \<and> task_createdById t' = task_createdById t
           \<and> task_assigneeId t' = task_assigneeId t
           \<and> task_acceptedAt t' = task_acceptedAt t
           \<and> task_deletedAt t' = task_deletedAt t
           \<and> (task_status t = PENDING_ACCEPTANCE \<and> task_acceptedAt t = None
                 \<and> newStatus = ''OPEN'' \<longrightarrow>
               task_status t' = OPEN \<and> task_acceptedAt t' = None)
           \<and> task_status t' \<noteq> PENDING_ACCEPTANCE
           \<and> d' = d\<lparr>tasks :=
                      map (\<lambda>x. if task_id x = taskId
                                then x\<lparr>task_status := task_status t', task_updatedAt := now\<rparr>
                                else x) (tasks d)\<rparr>"
proof -
  from ok obtain t where g: "getTaskById taskId userId d = Inr t"
    by (auto simp: updateTaskStatus_def split: sum.splits)
  from getTaskById_Inr[OF g]
  have vis: "find (\<lambda>x. task_id x = taskId \<and> task_deletedAt x = None) (tasks d) = Some t"
    by simp
  from ok g have valid: "isValidTransition (status_name (task_status t)) newStatus"
    by (auto simp: updateTaskStatus_def split: if_splits)
  from isValidTransition_status_of_name[OF valid] obtain s where
    s: "status_of_name newStatus = Some s" "s \<noteq> PENDING_ACCEPTANCE" "newStatus = status_name s"
    by blast
  have u: "task_update now taskId (\<lambda>x. x\<lparr>task_status := s\<rparr>) d =
           (Inr (t\<lparr>task_status := s, task_updatedAt := now\<rparr>),
            d\<lparr>tasks := map (\<lambda>x. if task_id x = taskId then x\<lparr>task_status := s, task_updatedAt := now\<rparr> else x) (tasks d)\<rparr>)"
    using task_update_visible(1)[OF pk vis, of "\<lambda>x. x\<lparr>task_status := s\<rparr>" now] by simp
  from ok g valid s u have t': "t' = t\<lparr>task_status := s, task_updatedAt := now\<rparr>"
    and d': "d' = d\<lparr>tasks := map (\<lambda>x. if task_id x = taskId then x\<lparr>task_status := s, task_updatedAt := now\<rparr> else x) (tasks d)\<rparr>"
    by (simp_all add: updateTaskStatus_def)
  have op: "newStatus = ''OPEN'' \<Longrightarrow> s = OPEN"
    using s(1) by (simp add: status_of_name_def)
  show ?thesis
    using vis t' d' s(2) op by auto
qed

theorem updateTaskStatus_frame_witness:
  "distinct (map task_id (tasks ex_db0))
   \<and> updateTaskStatus 77 30 ''OPEN'' 2 ex_db0 =
       (Inr ((ex_task 30 OPEN (Some 2) None None)\<lparr>task_updatedAt := 77\<rparr>),
        ex_db0\<lparr>tasks := [(ex_task 30 OPEN (Some 2) None None)\<lparr>task_updatedAt := 77\<rparr>,
                         ex_task 31 OPEN (Some 2) (Some 5) None,
                         ex_task 32 OPEN None None (Some 9)]\<rparr>)
   \<and> (\<exists>t. find (\<lambda>x. task_id x = 30 \<and> task_deletedAt x = None) (tasks ex_db0) = Some t
         \<and> task_status t = PENDING_ACCEPTANCE
         \<and> task_acceptedAt t = None
         \<and> task_acceptedAt ((ex_task 30 OPEN (Some 2) None None)\<lparr>task_updatedAt := 77\<rparr>)
             = task_acceptedAt t)"
proof -
  have h1: "distinct (map task_id (tasks ex_db0))" by (simp add: ex_defs)
  have h2: "updateTaskStatus 77 30 ''OPEN'' 2 ex_db0 =
       (Inr ((ex_task 30 OPEN (Some 2) None None)\<lparr>task_updatedAt := 77\<rparr>),
        ex_db0\<lparr>tasks := [(ex_task 30 OPEN (Some 2) None None)\<lparr>task_updatedAt := 77\<rparr>,
                         ex_task 31 OPEN (Some 2) (Some 5) None,
                         ex_task 32 OPEN None None (Some 9)]\<rparr>)"
    by (simp add: updateTaskStatus_def getTaskById_def assertGroupMember_def findMembership_def
          isValidTransition_def VALID_TRANSITIONS_def status_name_def status_of_name_def
          task_update_def ex_defs)
  from updateTaskStatus_frame[OF h1 h2] obtain t where
    "find (\<lambda>x. task_id x = 30 \<and> task_deletedAt x = None) (tasks ex_db0) = Some t"
    "task_acceptedAt ((ex_task 30 OPEN (Some 2) None None)\<lparr>task_updatedAt := 77\<rparr>)
       = task_acceptedAt t"
    by blast
  moreover from this(1) have "t = ex_task 30 PENDING_ACCEPTANCE (Some 2) None None"
    by (simp add: ex_defs)
  ultimately show ?thesis using h1 h2 by (auto simp: ex_defs)
qed

end
